theory Spec2Isabelle
  imports Main "HOL-Library.Sublist" "HOL-Library.AList"
begin

section \<open>Python values and the operations the adapters apply to them\<close>

text \<open>
  Both adapters work on loosely typed dictionaries: the chat-turn body handed over by the
  host and the decoded JSON bodies of the notes service. A value is one of Python's
  JSON-shaped objects. Dictionaries are association lists in insertion order; a lookup
  takes the first binding of a key. Floating-point numbers are left out.
  A Python string is the list of its Unicode code points; \<open>asc\<close> turns a literal of
  ASCII characters into such a list.
\<close>

type_synonym pystr = "nat list"

definition asc :: "string \<Rightarrow> pystr" where
  "asc s = map of_char s"

datatype pyval =
    PNone
  | PBool bool
  | PInt int
  | PStr pystr
  | PList "pyval list"
  | PDict "(pystr \<times> pyval) list"

datatype exn = AttributeError | TypeError | KeyError | IndexError

type_synonym 'a result = "exn + 'a"

text \<open>Python truth value of an object (\<open>if x\<close>, \<open>not x\<close>).\<close>

fun truthy :: "pyval \<Rightarrow> bool" where
  "truthy PNone = False"
| "truthy (PBool b) = b"
| "truthy (PInt i) = (i \<noteq> 0)"
| "truthy (PStr s) = (s \<noteq> [])"
| "truthy (PList xs) = (xs \<noteq> [])"
| "truthy (PDict kvs) = (kvs \<noteq> [])"

text \<open>\<open>x.get(key, default)\<close>: only a dictionary has the method.\<close>

fun py_get :: "pyval \<Rightarrow> pystr \<Rightarrow> pyval \<Rightarrow> pyval result" where
  "py_get (PDict kvs) k d = Inr (case map_of kvs k of Some v \<Rightarrow> v | None \<Rightarrow> d)"
| "py_get _ k d = Inl AttributeError"

text \<open>\<open>key in x\<close> for a string key.\<close>

fun py_contains :: "pystr \<Rightarrow> pyval \<Rightarrow> bool result" where
  "py_contains k (PDict kvs) = Inr (k \<in> fst ` set kvs)"
| "py_contains k (PList xs) = Inr (PStr k \<in> set xs)"
| "py_contains k (PStr s) = Inr (sublist k s)"
| "py_contains k _ = Inl TypeError"

text \<open>\<open>x[key]\<close> for a string key.\<close>

fun py_getitem :: "pyval \<Rightarrow> pystr \<Rightarrow> pyval result" where
  "py_getitem (PDict kvs) k = (case map_of kvs k of Some v \<Rightarrow> Inr v | None \<Rightarrow> Inl KeyError)"
| "py_getitem _ k = Inl TypeError"

text \<open>\<open>x[-1]\<close>, applied to an object that is already known to be truthy.\<close>

fun py_last :: "pyval \<Rightarrow> pyval result" where
  "py_last (PList xs) = (if xs = [] then Inl IndexError else Inr (last xs))"
| "py_last (PStr s) = (if s = [] then Inl IndexError else Inr (PStr [last s]))"
| "py_last (PDict kvs) = Inl KeyError"
| "py_last _ = Inl TypeError"

text \<open>\<open>len(x)\<close>.\<close>

fun py_len :: "pyval \<Rightarrow> nat result" where
  "py_len (PStr s) = Inr (length s)"
| "py_len (PList xs) = Inr (length xs)"
| "py_len (PDict kvs) = Inr (length kvs)"
| "py_len _ = Inl TypeError"

text \<open>The elements a \<open>for\<close> loop or a generator draws from an object.\<close>

fun py_iter :: "pyval \<Rightarrow> pyval list result" where
  "py_iter (PList xs) = Inr xs"
| "py_iter (PStr s) = Inr (map (\<lambda>c. PStr [c]) s)"
| "py_iter (PDict kvs) = Inr (map (\<lambda>kv. PStr (fst kv)) kvs)"
| "py_iter _ = Inl TypeError"

subsection \<open>Text\<close>

text \<open>
  The white space of \<open>str.strip\<close>, \<open>str.isspace\<close> and the pattern \<open>\s\<close>, and the
  decimal digits of the pattern \<open>\d\<close>, are those of the Unicode data of Python 3.11
  (Unicode 14): 29 white-space characters and 62 ranges of digits.
\<close>

definition is_space :: "nat \<Rightarrow> bool" where
  "is_space c =
     (c \<in> set [0x09, 0x0A, 0x0B, 0x0C, 0x0D, 0x1C, 0x1D, 0x1E, 0x1F, 0x20, 0x85, 0xA0, 0x1680,
                0x2000, 0x2001, 0x2002, 0x2003, 0x2004, 0x2005, 0x2006, 0x2007, 0x2008, 0x2009,
                0x200A, 0x2028, 0x2029, 0x202F, 0x205F, 0x3000])"

definition digit_ranges :: "(nat \<times> nat) list" where
  "digit_ranges =
     [(0x30, 0x39), (0x660, 0x669), (0x6F0, 0x6F9), (0x7C0, 0x7C9), (0x966, 0x96F),
      (0x9E6, 0x9EF), (0xA66, 0xA6F), (0xAE6, 0xAEF), (0xB66, 0xB6F), (0xBE6, 0xBEF),
      (0xC66, 0xC6F), (0xCE6, 0xCEF), (0xD66, 0xD6F), (0xDE6, 0xDEF), (0xE50, 0xE59),
      (0xED0, 0xED9), (0xF20, 0xF29), (0x1040, 0x1049), (0x1090, 0x1099), (0x17E0, 0x17E9),
      (0x1810, 0x1819), (0x1946, 0x194F), (0x19D0, 0x19D9), (0x1A80, 0x1A89),
      (0x1A90, 0x1A99), (0x1B50, 0x1B59), (0x1BB0, 0x1BB9), (0x1C40, 0x1C49),
      (0x1C50, 0x1C59), (0xA620, 0xA629), (0xA8D0, 0xA8D9), (0xA900, 0xA909),
      (0xA9D0, 0xA9D9), (0xA9F0, 0xA9F9), (0xAA50, 0xAA59), (0xABF0, 0xABF9),
      (0xFF10, 0xFF19), (0x104A0, 0x104A9), (0x10D30, 0x10D39), (0x11066, 0x1106F),
      (0x110F0, 0x110F9), (0x11136, 0x1113F), (0x111D0, 0x111D9), (0x112F0, 0x112F9),
      (0x11450, 0x11459), (0x114D0, 0x114D9), (0x11650, 0x11659), (0x116C0, 0x116C9),
      (0x11730, 0x11739), (0x118E0, 0x118E9), (0x11950, 0x11959), (0x11C50, 0x11C59),
      (0x11D50, 0x11D59), (0x11DA0, 0x11DA9), (0x16A60, 0x16A69), (0x16AC0, 0x16AC9),
      (0x16B50, 0x16B59), (0x1D7CE, 0x1D7FF), (0x1E140, 0x1E149), (0x1E2F0, 0x1E2F9),
      (0x1E950, 0x1E959), (0x1FBF0, 0x1FBF9)]"

definition is_digit :: "nat \<Rightarrow> bool" where
  "is_digit c = list_ex (\<lambda>r. fst r \<le> c \<and> c \<le> snd r) digit_ranges"

text \<open>
  \<open>str.lower\<close>, character by character. Outside ASCII only two characters lower to text
  that contains an ASCII letter: U+0130 (to i and the combining dot U+0307) and the Kelvin
  sign U+212A (to k); they are mapped as Python maps them. Every other cased character
  outside ASCII is left as it is: the keywords and patterns of the adapters are ASCII, so
  this shows only in the spelling of a captured search query.
\<close>

definition lower_char :: "nat \<Rightarrow> pystr" where
  "lower_char c =
     (if 0x41 \<le> c \<and> c \<le> 0x5A then [c + 0x20]
      else if c = 0x130 then [0x69, 0x307]
      else if c = 0x212A then [0x6B]
      else [c])"

definition lower :: "pystr \<Rightarrow> pystr" where
  "lower s = concat (map lower_char s)"

definition strip :: "pystr \<Rightarrow> pystr" where
  "strip s = rev (dropWhile is_space (rev (dropWhile is_space s)))"

text \<open>\<open>sep.join(xs)\<close> on strings.\<close>

fun join :: "pystr \<Rightarrow> pystr list \<Rightarrow> pystr" where
  "join sep [] = []"
| "join sep [x] = x"
| "join sep (x # y # ys) = x @ sep @ join sep (y # ys)"

text \<open>\<open>sep.join(x)\<close> on an object: every element drawn from it has to be a string.\<close>

fun as_strs :: "pyval list \<Rightarrow> pystr list result" where
  "as_strs [] = Inr []"
| "as_strs (PStr s # xs) = (case as_strs xs of Inl e \<Rightarrow> Inl e | Inr ss \<Rightarrow> Inr (s # ss))"
| "as_strs (_ # xs) = Inl TypeError"

definition py_join :: "pystr \<Rightarrow> pyval \<Rightarrow> pystr result" where
  "py_join sep x =
     (case py_iter x of
        Inl e \<Rightarrow> Inl e
      | Inr xs \<Rightarrow> (case as_strs xs of Inl e \<Rightarrow> Inl e | Inr ss \<Rightarrow> Inr (join sep ss)))"

subsection \<open>Printing values\<close>

text \<open>
  An f-string field \<open>{x}\<close> inserts \<open>str(x)\<close>: a string as it is, every other object
  through \<open>repr\<close>. In the \<open>repr\<close> of a string that stands inside a list or a
  dictionary, the characters outside ASCII are taken as printable.
\<close>

definition digit_char :: "nat \<Rightarrow> nat" where
  "digit_char n = 0x30 + n"

function show_nat :: "nat \<Rightarrow> pystr" where
  "show_nat n = (if n < 10 then [digit_char n] else show_nat (n div 10) @ [digit_char (n mod 10)])"
  by pat_completeness auto
termination
  by (relation "measure id") auto

definition show_int :: "int \<Rightarrow> pystr" where
  "show_int i = (if i < 0 then 0x2D # show_nat (nat (- i)) else show_nat (nat i))"

definition hex_digit :: "nat \<Rightarrow> nat" where
  "hex_digit n = (if n < 10 then 0x30 + n else 0x57 + n)"

definition repr_char :: "nat \<Rightarrow> nat \<Rightarrow> pystr" where
  "repr_char q c =
     (if c = 0x5C then [0x5C, 0x5C]
      else if c = q then [0x5C, q]
      else if c = 0x0A then [0x5C, 0x6E]
      else if c = 0x0D then [0x5C, 0x72]
      else if c = 0x09 then [0x5C, 0x74]
      else if c < 0x20 \<or> c = 0x7F
        then [0x5C, 0x78, hex_digit (c div 16), hex_digit (c mod 16)]
      else [c])"

definition repr_str :: "pystr \<Rightarrow> pystr" where
  "repr_str s =
     (let q = (if 0x27 \<in> set s \<and> 0x22 \<notin> set s then 0x22 else 0x27)
      in [q] @ concat (map (repr_char q) s) @ [q])"

fun py_repr :: "pyval \<Rightarrow> pystr" where
  "py_repr PNone = (asc ''None'')"
| "py_repr (PBool b) = (if b then (asc ''True'') else (asc ''False''))"
| "py_repr (PInt i) = show_int i"
| "py_repr (PStr s) = repr_str s"
| "py_repr (PList xs) = (asc ''['') @ join (asc '', '') (map py_repr xs) @ (asc '']'')"
| "py_repr (PDict kvs) =
     (asc ''{'') @ join (asc '', '') (map (\<lambda>kv. repr_str (fst kv) @ (asc '': '') @ py_repr (snd kv)) kvs) @ (asc ''}'')"

fun py_str :: "pyval \<Rightarrow> pystr" where
  "py_str (PStr s) = s"
| "py_str x = py_repr x"

section \<open>The notes service as seen through the HTTP library\<close>

text \<open>
  A request either raises inside the library (connection refused, timeout) or returns a
  response. \<open>raise_for_status\<close> raises for the status codes 400 to 599, with the text
  \<open>status_error\<close>; \<open>json\<close> raises when the body does not decode (\<open>Inl\<close> holds the
  text of that exception) and returns the decoded value otherwise.
\<close>

datatype request = GET pystr | DELETE pystr

record response =
  status_code :: nat
  status_error :: pystr
  json_body :: "pystr + pyval"

datatype outcome = Raised pystr | Returned response

type_synonym service = "request \<Rightarrow> outcome"

definition raise_for_status :: "response \<Rightarrow> pystr option" where
  "raise_for_status r =
     (if 400 \<le> status_code r \<and> status_code r < 600 then Some (status_error r) else None)"

text \<open>
  The body of the \<open>try\<close> block shared by both \<open>api_get\<close>:
  \<open>Inl\<close> is the text of the exception it raised, \<open>Inr\<close> the decoded body.
\<close>

definition try_get :: "service \<Rightarrow> pystr \<Rightarrow> pystr + pyval" where
  "try_get svc url =
     (case svc (GET url) of
        Raised msg \<Rightarrow> Inl msg
      | Returned r \<Rightarrow>
          (case raise_for_status r of
             Some msg \<Rightarrow> Inl msg
           | None \<Rightarrow> json_body r))"

record valves =
  mariposa_url :: pystr

record filter_valves = valves +
  enable_auto_fetch :: bool
  enable_slash_commands :: bool

record pipe_valves = valves +
  passthrough_model :: pystr

text \<open>The query string built by both \<open>fetch_notes\<close>.\<close>

definition notes_query :: "(pystr \<times> pystr) list option \<Rightarrow> pystr" where
  "notes_query params =
     (case params of
        None \<Rightarrow> []
      | Some ps \<Rightarrow>
          if ps = [] then []
          else (asc ''?'') @ join (asc ''&'') (map (\<lambda>kv. fst kv @ (asc ''='') @ snd kv)
                                       (filter (\<lambda>kv. snd kv \<noteq> []) ps)))"

section \<open>Adapter A: the notes client of the filter\<close>

definition filter_api_get :: "filter_valves \<Rightarrow> service \<Rightarrow> pystr \<Rightarrow> pyval" where
  "filter_api_get v svc endpoint =
     (case try_get svc (mariposa_url v @ endpoint) of
        Inl msg \<Rightarrow> PNone
      | Inr j \<Rightarrow> j)"

definition filter_api_delete :: "filter_valves \<Rightarrow> service \<Rightarrow> pystr \<Rightarrow> bool" where
  "filter_api_delete v svc endpoint =
     (case svc (DELETE (mariposa_url v @ endpoint)) of
        Raised msg \<Rightarrow> False
      | Returned r \<Rightarrow> status_code r = 204)"

definition filter_fetch_note :: "filter_valves \<Rightarrow> service \<Rightarrow> pystr \<Rightarrow> pyval" where
  "filter_fetch_note v svc slug = filter_api_get v svc ((asc ''/api/notes/'') @ slug)"

definition filter_fetch_notes ::
  "filter_valves \<Rightarrow> service \<Rightarrow> (pystr \<times> pystr) list option \<Rightarrow> pyval result" where
  "filter_fetch_notes v svc params =
     (let data = filter_api_get v svc ((asc ''/api/notes'') @ notes_query params)
      in if truthy data then py_get data (asc ''notes'') (PList []) else Inr (PList []))"

definition filter_fetch_categories :: "filter_valves \<Rightarrow> service \<Rightarrow> pyval result" where
  "filter_fetch_categories v svc =
     (let data = filter_api_get v svc (asc ''/api/categories'')
      in if truthy data then py_get data (asc ''categories'') (PList []) else Inr (PList []))"

definition filter_fetch_tags :: "filter_valves \<Rightarrow> service \<Rightarrow> pyval result" where
  "filter_fetch_tags v svc =
     (let data = filter_api_get v svc (asc ''/api/tags'')
      in if truthy data then py_get data (asc ''tags'') (PList []) else Inr (PList []))"

section \<open>Adapter B: the notes client of the pipe\<close>

definition pipe_api_get :: "pipe_valves \<Rightarrow> service \<Rightarrow> pystr \<Rightarrow> pyval" where
  "pipe_api_get v svc endpoint =
     (case try_get svc (mariposa_url v @ endpoint) of
        Inl msg \<Rightarrow> PDict [(asc ''error'', PStr msg)]
      | Inr j \<Rightarrow> j)"

definition pipe_api_delete :: "pipe_valves \<Rightarrow> service \<Rightarrow> pystr \<Rightarrow> pyval" where
  "pipe_api_delete v svc endpoint =
     (case svc (DELETE (mariposa_url v @ endpoint)) of
        Raised msg \<Rightarrow> PDict [(asc ''error'', PStr msg)]
      | Returned r \<Rightarrow>
          if status_code r = 204 then PDict [(asc ''success'', PBool True)]
          else PDict [(asc ''error'', PStr ((asc ''Status '') @ show_nat (status_code r)))])"

definition pipe_fetch_note :: "pipe_valves \<Rightarrow> service \<Rightarrow> pystr \<Rightarrow> pyval" where
  "pipe_fetch_note v svc slug = pipe_api_get v svc ((asc ''/api/notes/'') @ slug)"

definition pipe_fetch_notes ::
  "pipe_valves \<Rightarrow> service \<Rightarrow> (pystr \<times> pystr) list option \<Rightarrow> pyval" where
  "pipe_fetch_notes v svc params = pipe_api_get v svc ((asc ''/api/notes'') @ notes_query params)"

definition pipe_fetch_key :: "pipe_valves \<Rightarrow> service \<Rightarrow> pystr \<Rightarrow> pystr \<Rightarrow> pyval result" where
  "pipe_fetch_key v svc endpoint key =
     (let data = pipe_api_get v svc endpoint
      in if truthy data then
           (case py_contains key data of
              Inl e \<Rightarrow> Inl e
            | Inr present \<Rightarrow> if present then py_getitem data key else Inr (PList []))
         else Inr (PList []))"

definition pipe_fetch_categories :: "pipe_valves \<Rightarrow> service \<Rightarrow> pyval result" where
  "pipe_fetch_categories v svc = pipe_fetch_key v svc (asc ''/api/categories'') (asc ''categories'')"

definition pipe_fetch_tags :: "pipe_valves \<Rightarrow> service \<Rightarrow> pyval result" where
  "pipe_fetch_tags v svc = pipe_fetch_key v svc (asc ''/api/tags'') (asc ''tags'')"

section \<open>Regular expressions\<close>

text \<open>
  The patterns of both adapters are flat: a sequence of single-character atoms with a
  quantifier, one alternation of words, one capture group and the anchors. \<open>rmatch\<close> is
  the backtracking matcher of \<open>re.match\<close> on such a sequence: a greedy quantifier tries
  the longer match first, a lazy one the shorter, and an alternation its words from left
  to right. The flag \<open>ic\<close> is \<open>re.IGNORECASE\<close>, \<open>b\<close> says whether the position is
  the start of the text, and the capture state collects the text of group 1.
\<close>

datatype cclass = Lit nat | Space | Digit | AnyButNL | OneOf pystr

datatype quant = Once | Opt | Plus | PlusLazy

datatype item = Atom cclass quant | Alt "pystr list" | GrpOpen | GrpClose | Bol | Eol

datatype cap = NoGrp | Open pystr | Closed pystr

text \<open>
  Under \<open>re.IGNORECASE\<close> a letter of a pattern matches its two ASCII cases and, for
  i, k and s, the further characters Python lists: U+0130 and U+0131, the Kelvin sign
  U+212A, and the long s U+017F. The patterns of the adapters hold ASCII characters only.
\<close>

definition ascii_lower :: "nat \<Rightarrow> nat" where
  "ascii_lower c = (if 0x41 \<le> c \<and> c \<le> 0x5A then c + 0x20 else c)"

definition ci_eq :: "nat \<Rightarrow> nat \<Rightarrow> bool" where
  "ci_eq a c =
     (ascii_lower c = ascii_lower a
      \<or> (ascii_lower a = 0x69 \<and> (c = 0x130 \<or> c = 0x131))
      \<or> (ascii_lower a = 0x6B \<and> c = 0x212A)
      \<or> (ascii_lower a = 0x73 \<and> c = 0x17F))"

fun cmatch :: "bool \<Rightarrow> cclass \<Rightarrow> nat \<Rightarrow> bool" where
  "cmatch ic (Lit a) c = (if ic then ci_eq a c else a = c)"
| "cmatch ic Space c = is_space c"
| "cmatch ic Digit c = is_digit c"
| "cmatch ic AnyButNL c = (c \<noteq> 0x0A)"
| "cmatch ic (OneOf cs) c = (if ic then list_ex (\<lambda>a. ci_eq a c) cs else c \<in> set cs)"

fun rec_cap :: "cap \<Rightarrow> pystr \<Rightarrow> cap" where
  "rec_cap (Open a) cs = Open (a @ cs)"
| "rec_cap g cs = g"

fun close_cap :: "cap \<Rightarrow> cap" where
  "close_cap (Open a) = Closed a"
| "close_cap g = g"

text \<open>Whether the text begins with the word, character by character.\<close>

fun starts_with :: "bool \<Rightarrow> pystr \<Rightarrow> pystr \<Rightarrow> bool" where
  "starts_with ic [] s = True"
| "starts_with ic (a # w) [] = False"
| "starts_with ic (a # w) (x # s) = (cmatch ic (Lit a) x \<and> starts_with ic w s)"

fun item_weight :: "item \<Rightarrow> nat" where
  "item_weight (Alt ws) = Suc (length ws)"
| "item_weight it = 1"

function (sequential) rmatch ::
  "bool \<Rightarrow> item list \<Rightarrow> bool \<Rightarrow> cap \<Rightarrow> pystr \<Rightarrow> (cap \<times> pystr) option" where
  "rmatch ic [] b g s = Some (g, s)"
| "rmatch ic (GrpOpen # r) b g s = rmatch ic r b (Open []) s"
| "rmatch ic (GrpClose # r) b g s = rmatch ic r b (close_cap g) s"
| "rmatch ic (Bol # r) b g s = (if b then rmatch ic r b g s else None)"
| "rmatch ic (Eol # r) b g s =
     (if s = [] \<or> s = [0xA] then rmatch ic r b g s else None)"
| "rmatch ic (Alt [] # r) b g s = None"
| "rmatch ic (Alt (w # ws) # r) b g s =
     (case (if starts_with ic w s
            then rmatch ic r (b \<and> w = []) (rec_cap g (take (length w) s)) (drop (length w) s)
            else None) of
        Some res \<Rightarrow> Some res
      | None \<Rightarrow> rmatch ic (Alt ws # r) b g s)"
| "rmatch ic (Atom c q # r) b g [] = (if q = Opt then rmatch ic r b g [] else None)"
| "rmatch ic (Atom c Once # r) b g (x # s) =
     (if cmatch ic c x then rmatch ic r False (rec_cap g [x]) s else None)"
| "rmatch ic (Atom c Opt # r) b g (x # s) =
     (case (if cmatch ic c x then rmatch ic r False (rec_cap g [x]) s else None) of
        Some res \<Rightarrow> Some res
      | None \<Rightarrow> rmatch ic r b g (x # s))"
| "rmatch ic (Atom c Plus # r) b g (x # s) =
     (if cmatch ic c x then
        (case rmatch ic (Atom c Plus # r) False (rec_cap g [x]) s of
           Some res \<Rightarrow> Some res
         | None \<Rightarrow> rmatch ic r False (rec_cap g [x]) s)
      else None)"
| "rmatch ic (Atom c PlusLazy # r) b g (x # s) =
     (if cmatch ic c x then
        (case rmatch ic r False (rec_cap g [x]) s of
           Some res \<Rightarrow> Some res
         | None \<Rightarrow> rmatch ic (Atom c PlusLazy # r) False (rec_cap g [x]) s)
      else None)"
  by pat_completeness auto
termination
  by (relation "measures [\<lambda>(ic, p, b, g, s). length s,
                          \<lambda>(ic, p, b, g, s). sum_list (map item_weight p)]") auto

definition lits :: "pystr \<Rightarrow> item list" where
  "lits w = map (\<lambda>c. Atom (Lit c) Once) w"

text \<open>\<open>re.match(p, s)\<close> followed by \<open>match.group(1)\<close>: None when there is no match.\<close>

fun group1 :: "cap \<Rightarrow> pystr" where
  "group1 (Closed a) = a"
| "group1 g = []"

definition re_match :: "bool \<Rightarrow> item list \<Rightarrow> pystr \<Rightarrow> pystr option" where
  "re_match ic p s = map_option (\<lambda>res. group1 (fst res)) (rmatch ic p True NoGrp s)"

text \<open>
  \<open>re.findall(p, s)\<close> for a pattern without a group: the matches from left to right,
  each search starting where the last match ended. No pattern of the adapters matches the
  empty text; the scan steps over one character where a match is empty.
\<close>

function findall :: "bool \<Rightarrow> item list \<Rightarrow> bool \<Rightarrow> pystr \<Rightarrow> pystr list" where
  "findall ic p b s =
     (if s = [] then (case rmatch ic p b NoGrp [] of Some res \<Rightarrow> [[]] | None \<Rightarrow> [])
      else case rmatch ic p b NoGrp s of
             None \<Rightarrow> findall ic p False (tl s)
           | Some res \<Rightarrow>
               (let n = length s - length (snd res)
                in take n s # findall ic p False (drop (max 1 n) s)))"
  by pat_completeness auto
termination
  by (relation "measure (\<lambda>(ic, p, b, s). length s)") auto

declare findall.simps [simp del]

text \<open>The patterns, in the order they appear in the two adapters.\<close>

definition slug_pattern :: "item list" where
  "slug_pattern = lits (asc ''note-'') @ [Atom Digit Plus]"

definition filter_read_pattern :: "item list" where
  "filter_read_pattern =
     [Atom (Lit (of_char CHR ''/'')) Opt] @ lits (asc ''read'') @ [Atom Space Plus, GrpOpen] @ slug_pattern
       @ [GrpClose]"

definition filter_search_pattern :: "item list" where
  "filter_search_pattern =
     [Atom (Lit (of_char CHR ''/'')) Opt] @ lits (asc ''search'')
       @ [Atom Space Plus, GrpOpen, Atom AnyButNL Plus, GrpClose]"

definition pipe_read_pattern :: "item list" where
  "pipe_read_pattern =
     [Bol, Atom (Lit (of_char CHR ''/'')) Opt, Alt [(asc ''read''), (asc ''show''), (asc ''open''), (asc ''view'')],
      Atom Space Plus, GrpOpen] @ slug_pattern @ [GrpClose, Eol]"

definition pipe_search_pattern :: "item list" where
  "pipe_search_pattern =
     [Bol, Atom (Lit (of_char CHR ''/'')) Opt] @ lits (asc ''search'')
       @ [Atom Space Plus, Atom (OneOf [0x22, 0x27]) Opt,
          GrpOpen, Atom AnyButNL PlusLazy, GrpClose,
          Atom (OneOf [0x22, 0x27]) Opt, Eol]"

definition pipe_delete_pattern :: "item list" where
  "pipe_delete_pattern =
     [Bol, Atom (Lit (of_char CHR ''/'')) Opt] @ lits (asc ''delete'') @ [Atom Space Plus, GrpOpen]
       @ slug_pattern @ [GrpClose, Eol]"

section \<open>Sequencing computations that may raise\<close>

fun rbind :: "'a result \<Rightarrow> ('a \<Rightarrow> 'b result) \<Rightarrow> 'b result" where
  "rbind (Inl e) f = Inl e"
| "rbind (Inr x) f = f x"

fun map_result :: "('a \<Rightarrow> 'b result) \<Rightarrow> 'a list \<Rightarrow> 'b list result" where
  "map_result f [] = Inr []"
| "map_result f (x # xs) =
     (case f x of
        Inl e \<Rightarrow> Inl e
      | Inr y \<Rightarrow> (case map_result f xs of Inl e \<Rightarrow> Inl e | Inr ys \<Rightarrow> Inr (y # ys)))"

definition nl :: pystr where
  "nl = [0xA]"

section \<open>Adapter A: Markdown rendering\<close>

text \<open>\<open>", ".join(f"`{t}`" for t in x)\<close>\<close>

definition backticked :: "pyval \<Rightarrow> pystr result" where
  "backticked x =
     rbind (py_iter x) (\<lambda>ts. Inr (join (asc '', '') (map (\<lambda>t. (asc ''`'') @ py_str t @ (asc ''`'')) ts)))"

definition render_note_md :: "pyval \<Rightarrow> bool \<Rightarrow> pystr result" where
  "render_note_md note compact =
     rbind (py_get note (asc ''title'') (PStr (asc ''Untitled''))) (\<lambda>title.
     rbind (py_get note (asc ''slug'') (PStr [])) (\<lambda>slug.
     rbind (py_get note (asc ''category'') (PStr (asc ''uncategorized''))) (\<lambda>category.
     rbind (py_get note (asc ''tags'') (PList [])) (\<lambda>tags.
     rbind (py_get note (asc ''content'') (PStr [])) (\<lambda>content.
     rbind (py_get note (asc ''updatedAt'') (PStr [])) (\<lambda>updated.
     rbind (if truthy tags then backticked tags else Inr (asc ''_no tags_'')) (\<lambda>tags_str.
       if compact then
         rbind (py_len tags) (\<lambda>n. Inr (
           (asc ''**'') @ py_str title @ (asc ''** ('') @ py_str slug @ (asc '') '') @ [0x2014] @
           (asc '' _'') @ py_str category @ (asc ''_ '') @ [0xB7] @ (asc '' '') @ show_nat n @ (asc '' tags'')))
       else Inr (
         (asc ''### '') @ py_str title @ nl @ nl @ (asc ''**Category:** '') @ py_str category @
         (asc '' | **Tags:** '') @ tags_str @ (asc ''  '') @ nl @ (asc ''**Slug:** `'') @ py_str slug @
         (asc ''` | **Updated:** '') @ py_str updated @ nl @ nl @ (asc ''---'') @ nl @
         nl @ (if truthy content then py_str content else (asc ''_No content_'')) @ nl @
         nl @ (asc ''---'') @ nl @ nl @ (asc ''**Actions:** `read '') @ py_str slug @ (asc ''` '') @
         [0xB7] @ (asc '' `edit '') @ py_str slug @ (asc ''` '') @ [0xB7] @
         (asc '' `delete '') @ py_str slug @ (asc ''`'') @ nl))))))))"

definition notes_list_line :: "pyval \<Rightarrow> pystr result" where
  "notes_list_line n =
     rbind (py_get n (asc ''title'') (PStr (asc ''Untitled''))) (\<lambda>title.
     rbind (py_get n (asc ''slug'') (PStr [])) (\<lambda>slug.
     rbind (py_get n (asc ''category'') (PStr [])) (\<lambda>category.
     rbind (py_get n (asc ''tags'') (PList [])) (\<lambda>tags.
     rbind (if truthy tags then rbind (py_join (asc '', '') tags) (\<lambda>j. Inr ((asc ''['') @ j @ (asc '']'')))
            else Inr []) (\<lambda>tags_str. Inr (
       (asc ''- **'') @ py_str title @ (asc ''** `'') @ py_str slug @ (asc ''` '') @ [0x2014] @
       (asc '' _'') @ py_str category @ (asc ''_ '') @ tags_str))))))"

definition render_notes_list_md :: "pyval \<Rightarrow> pystr result" where
  "render_notes_list_md notes =
     (if \<not> truthy notes then Inr (
        [0x26A0, 0xFE0F] @
        (asc '' **No notes found.** Use `/new` to create one.''))
      else
        rbind (py_len notes) (\<lambda>n.
        rbind (py_iter notes) (\<lambda>ns.
        rbind (map_result notes_list_line ns) (\<lambda>lines. Inr (
          join nl ([(asc ''### Your Notes ('') @ show_nat n @ (asc '' total)'') @ nl] @ lines @
                   [nl @ (asc ''_Say `read <slug>` to view a note._'')]))))))"

definition render_error_md :: "pystr \<Rightarrow> pystr \<Rightarrow> pystr" where
  "render_error_md title message =
     [0x26A0, 0xFE0F] @ (asc '' **'') @ title @
     (asc ''**'') @ nl @ nl @ message"

definition render_creation_form :: "filter_valves \<Rightarrow> service \<Rightarrow> pystr result" where
  "render_creation_form v svc =
     rbind (filter_fetch_categories v svc) (\<lambda>categories.
     rbind (filter_fetch_tags v svc) (\<lambda>tags.
     rbind (if truthy categories then backticked categories else Inr (asc ''`uncategorized`'')) (\<lambda>cats_str.
     rbind (if truthy tags then backticked tags else Inr (asc ''_none yet_'')) (\<lambda>tags_str. Inr (
       (asc ''I'') @ [0x27] @ (asc ''d like to create a new note. Please help me fill in:'') @ nl @
       nl @ [0x1F4DD] @ (asc '' **Title:** [required]  '') @ nl @
       [0x1F4C1] @ (asc '' **Category:** '') @ cats_str @ (asc ''  '') @
       nl @ [0x1F3F7, 0xFE0F] @
       (asc '' **Tags:** '') @ tags_str @ (asc ''  '') @ nl @
       [0x1F4C4] @
       (asc '' **Content:** [what should the note contain?]'') @ nl @
       nl @ (asc ''_Guide me through each field one at a time._''))))))"

section \<open>Adapter A: the inlet\<close>

text \<open>
  The chat-turn body is a dictionary. The status notifications sent through the optional
  event emitter are returned next to the body, in the order they are sent; nothing is
  sent when the host gave no emitter.
\<close>

type_synonym body = "(pystr \<times> pyval) list"

datatype event = Status pystr bool

definition emit_status :: "bool \<Rightarrow> pystr \<Rightarrow> bool \<Rightarrow> event list" where
  "emit_status has_emitter description done =
     (if has_emitter then [Status description done] else [])"

text \<open>The commands a message is classified into, with the captured argument.\<close>

datatype command =
    ListNotes
  | ReadNote pystr
  | CreateNote
  | SearchNotes pystr
  | ListCategories
  | ListTags
  | DeleteNote pystr
  | Help
  | Unrecognized

text \<open>The chain of tests of \<open>inlet\<close> on the normalised text, in the order of the source.\<close>

definition filter_classify :: "pystr \<Rightarrow> command" where
  "filter_classify cmd =
     (if cmd = (asc ''/notes'') \<or> cmd = (asc ''notes'') \<or> prefix (asc ''/notes '') cmd then ListNotes
      else (case re_match True filter_read_pattern cmd of
              Some slug \<Rightarrow> ReadNote slug
            | None \<Rightarrow>
                (if cmd = (asc ''/new'') \<or> cmd = (asc ''new'') then CreateNote
                 else (case re_match True filter_search_pattern cmd of
                         Some query \<Rightarrow> SearchNotes query
                       | None \<Rightarrow> Unrecognized))))"

text \<open>\<open>messages[-1]["content"] = text\<close>, seen from the body that holds the list.\<close>

definition set_last_content :: "body \<Rightarrow> pystr \<Rightarrow> body result" where
  "set_last_content body text =
     (case map_of body (asc ''messages'') of
        Some (PList ms) \<Rightarrow>
          (if ms = [] then Inl IndexError
           else case last ms of
             PDict d \<Rightarrow>
               Inr (AList.update (asc ''messages'')
                      (PList (butlast ms @ [PDict (AList.update (asc ''content'') (PStr text) d)])) body)
           | _ \<Rightarrow> Inl TypeError)
      | _ \<Rightarrow> Inl TypeError)"

definition context_part :: "pyval \<Rightarrow> pystr \<Rightarrow> pystr result" where
  "context_part note slug =
     rbind (py_get note (asc ''title'') PNone) (\<lambda>title.
     rbind (py_get note (asc ''category'') PNone) (\<lambda>category.
     rbind (py_get note (asc ''tags'') (PList [])) (\<lambda>tags.
     rbind (py_join (asc '', '') tags) (\<lambda>tags_str.
     rbind (py_get note (asc ''content'') (PStr (asc ''(empty)''))) (\<lambda>content. Inr (
       (asc ''**'') @ py_str title @ (asc ''** (`'') @ slug @ (asc ''`)'') @ nl @
       (asc ''Category: '') @ py_str category @ (asc '' | Tags: '') @ tags_str @ nl @
       (asc ''Content: '') @ py_str content @ nl))))))"

text \<open>The loop over the mentioned slugs: one request each, in the order of the list.\<close>

fun context_parts :: "filter_valves \<Rightarrow> service \<Rightarrow> pystr list \<Rightarrow> pystr list result" where
  "context_parts v svc [] = Inr []"
| "context_parts v svc (slug # slugs) =
     (let note = filter_fetch_note v svc slug
      in rbind (if truthy note then rbind (context_part note slug) (\<lambda>p. Inr [p]) else Inr [])
           (\<lambda>ps. rbind (context_parts v svc slugs) (\<lambda>qs. Inr (ps @ qs))))"


definition mentioned_slugs :: "(pystr list \<Rightarrow> pystr list) \<Rightarrow> pystr \<Rightarrow> pystr list" where
  "mentioned_slugs set_order original_msg = set_order (findall True slug_pattern True original_msg)"

definition auto_fetch ::
  "filter_valves \<Rightarrow> service \<Rightarrow> (pystr list \<Rightarrow> pystr list) \<Rightarrow> body \<Rightarrow> pystr \<Rightarrow> body result" where
  "auto_fetch v svc set_order body original_msg =
     (if enable_auto_fetch v then
        (let slugs = mentioned_slugs set_order original_msg
         in if slugs \<noteq> [] then
              rbind (context_parts v svc slugs) (\<lambda>parts.
                if parts \<noteq> [] then
                  set_last_content body (
                    (asc ''[Context: Referenced notes]'') @ nl @
                    nl @ join (nl @ (asc ''---'') @ nl) parts @ nl @ nl @ (asc ''[User message:] '') @ original_msg)
                else Inr body)
            else Inr body)
      else Inr body)"

definition inlet_list_notes ::
  "filter_valves \<Rightarrow> service \<Rightarrow> bool \<Rightarrow> body \<Rightarrow> (event list \<times> body) result" where
  "inlet_list_notes v svc em body =
     rbind (filter_fetch_notes v svc None) (\<lambda>notes.
     rbind (render_notes_list_md notes) (\<lambda>md.
     rbind (set_last_content body (
              (asc ''[User requested note list. Display this to them:]'') @ nl @ nl @ md)) (\<lambda>body'.
       Inr (emit_status em (asc ''Fetching notes...'') False @ emit_status em (asc ''Notes loaded'') True,
            body'))))"

definition inlet_read ::
  "filter_valves \<Rightarrow> service \<Rightarrow> bool \<Rightarrow> body \<Rightarrow> pystr \<Rightarrow> (event list \<times> body) result" where
  "inlet_read v svc em body slug =
     (let note = filter_fetch_note v svc slug
      in if truthy note then
           rbind (render_note_md note False) (\<lambda>md.
           rbind (set_last_content body (
                    (asc ''[User requested to read '') @ slug @ (asc ''. Display this:]'') @ nl @ nl @ md))
             (\<lambda>body'.
               Inr (emit_status em ((asc ''Fetching '') @ slug @ (asc ''...'')) False
                      @ emit_status em (asc ''Note loaded'') True, body')))
         else
           rbind (set_last_content body (
                    (asc ''[Error: note not found]'') @ nl @ nl @
                    render_error_md (asc ''Note not found'') ((asc ''Could not find `'') @ slug @ (asc ''`.''))))
             (\<lambda>body'.
               Inr (emit_status em ((asc ''Fetching '') @ slug @ (asc ''...'')) False
                      @ emit_status em (asc ''Not found'') True, body')))"

definition inlet_new ::
  "filter_valves \<Rightarrow> service \<Rightarrow> body \<Rightarrow> (event list \<times> body) result" where
  "inlet_new v svc body =
     rbind (render_creation_form v svc) (\<lambda>form.
     rbind (set_last_content body form) (\<lambda>body'. Inr ([], body')))"

definition inlet_search ::
  "filter_valves \<Rightarrow> service \<Rightarrow> bool \<Rightarrow> body \<Rightarrow> pystr \<Rightarrow> (event list \<times> body) result" where
  "inlet_search v svc em body query =
     rbind (filter_fetch_notes v svc (Some [(asc ''search'', query)])) (\<lambda>notes.
     rbind (if truthy notes then
              rbind (render_notes_list_md notes) (\<lambda>md.
              rbind (py_len notes) (\<lambda>n.
                Inr (md, emit_status em ((asc ''Found '') @ show_nat n @ (asc '' notes'')) True)))
            else
              Inr (render_error_md (asc ''No results'')
                     ((asc ''No notes found matching '') @ [0x27] @ query @ [0x27] @ (asc ''.'')),
                   emit_status em (asc ''No results'') True)) (\<lambda>(md, done).
     rbind (set_last_content body (
              (asc ''[Search results for '') @ [0x27] @ query @ [0x27] @ (asc '':]'') @ nl @ nl @ md))
       (\<lambda>body'.
         Inr (emit_status em ((asc ''Searching for '') @ [0x27] @ query @ [0x27] @ (asc ''...'')) False
                @ done, body'))))"

definition inlet_text ::
  "filter_valves \<Rightarrow> service \<Rightarrow> (pystr list \<Rightarrow> pystr list) \<Rightarrow> bool \<Rightarrow> body \<Rightarrow> pystr
     \<Rightarrow> (event list \<times> body) result" where
  "inlet_text v svc set_order em body last_msg =
     (let original_msg = strip last_msg;
          command = (if enable_slash_commands v
                     then filter_classify (strip (lower original_msg))
                     else Unrecognized)
      in case command of
           ListNotes \<Rightarrow> inlet_list_notes v svc em body
         | ReadNote slug \<Rightarrow> inlet_read v svc em body slug
         | CreateNote \<Rightarrow> inlet_new v svc body
         | SearchNotes query \<Rightarrow> inlet_search v svc em body query
         | _ \<Rightarrow> rbind (auto_fetch v svc set_order body original_msg) (\<lambda>body'. Inr ([], body')))"

definition inlet ::
  "filter_valves \<Rightarrow> service \<Rightarrow> (pystr list \<Rightarrow> pystr list) \<Rightarrow> bool \<Rightarrow> body
     \<Rightarrow> (event list \<times> body) result" where
  "inlet v svc set_order em body =
     (let messages = (case map_of body (asc ''messages'') of Some m \<Rightarrow> m | None \<Rightarrow> PList [])
      in if \<not> truthy messages then Inr ([], body)
         else
           rbind (py_last messages) (\<lambda>last_message.
           rbind (py_get last_message (asc ''content'') (PStr [])) (\<lambda>last_msg.
             case last_msg of
               PStr text \<Rightarrow> inlet_text v svc set_order em body text
             | _ \<Rightarrow> Inr ([], body))))"

definition outlet :: "body \<Rightarrow> body" where
  "outlet body = body"

section \<open>Adapter B: HTML rendering\<close>

definition css_styles :: pystr where
  \<open>css_styles = concat [
     nl,
     (asc ''<style>'') @ nl,
     (asc ''.note-card {'') @ nl,
     (asc ''    border: 1px solid #444;'') @ nl,
     (asc ''    border-radius: 8px;'') @ nl,
     (asc ''    padding: 16px;'') @ nl,
     (asc ''    margin: 8px 0;'') @ nl,
     (asc ''    background: #1e1e1e;'') @ nl,
     (asc ''    font-family: system-ui, -apple-system, sans-serif;'') @ nl,
     (asc ''}'') @ nl,
     (asc ''.note-card-light {'') @ nl,
     (asc ''    background: #f8f8f8;'') @ nl,
     (asc ''    border-color: #ddd;'') @ nl,
     (asc ''}'') @ nl,
     (asc ''.note-header {'') @ nl,
     (asc ''    display: flex;'') @ nl,
     (asc ''    justify-content: space-between;'') @ nl,
     (asc ''    align-items: center;'') @ nl,
     (asc ''    margin-bottom: 12px;'') @ nl,
     (asc ''}'') @ nl,
     (asc ''.note-title {'') @ nl,
     (asc ''    font-size: 18px;'') @ nl,
     (asc ''    font-weight: 600;'') @ nl,
     (asc ''    color: #e0e0e0;'') @ nl,
     (asc ''    margin: 0;'') @ nl,
     (asc ''}'') @ nl,
     (asc ''.note-card-light .note-title {'') @ nl,
     (asc ''    color: #222;'') @ nl,
     (asc ''}'') @ nl,
     (asc ''.note-category {'') @ nl,
     (asc ''    background: #333;'') @ nl,
     (asc ''    color: #aaa;'') @ nl,
     (asc ''    padding: 4px 10px;'') @ nl,
     (asc ''    border-radius: 4px;'') @ nl,
     (asc ''    font-size: 12px;'') @ nl,
     (asc ''}'') @ nl,
     (asc ''.note-card-light .note-category {'') @ nl,
     (asc ''    background: #e0e0e0;'') @ nl,
     (asc ''    color: #555;'') @ nl,
     (asc ''}'') @ nl,
     (asc ''.note-tags {'') @ nl,
     (asc ''    margin-bottom: 12px;'') @ nl,
     (asc ''}'') @ nl,
     (asc ''.note-tag {'') @ nl,
     (asc ''    background: #2a4a2a;'') @ nl,
     (asc ''    color: #8f8;'') @ nl,
     (asc ''    padding: 3px 8px;'') @ nl,
     (asc ''    border-radius: 4px;'') @ nl,
     (asc ''    font-size: 11px;'') @ nl,
     (asc ''    margin-right: 6px;'') @ nl,
     (asc ''    display: inline-block;'') @ nl,
     (asc ''}'') @ nl,
     (asc ''.note-card-light .note-tag {'') @ nl,
     (asc ''    background: #d4edda;'') @ nl,
     (asc ''    color: #155724;'') @ nl,
     (asc ''}'') @ nl,
     (asc ''.note-meta {'') @ nl,
     (asc ''    color: #888;'') @ nl,
     (asc ''    font-size: 12px;'') @ nl,
     (asc ''    margin-bottom: 12px;'') @ nl,
     (asc ''}'') @ nl,
     (asc ''.note-content {'') @ nl,
     (asc ''    background: #252525;'') @ nl,
     (asc ''    padding: 12px;'') @ nl,
     (asc ''    border-radius: 6px;'') @ nl,
     (asc ''    color: #ccc;'') @ nl,
     (asc ''    font-size: 14px;'') @ nl,
     (asc ''    white-space: pre-wrap;'') @ nl,
     (asc ''    line-height: 1.5;'') @ nl,
     (asc ''}'') @ nl,
     (asc ''.note-card-light .note-content {'') @ nl,
     (asc ''    background: #fff;'') @ nl,
     (asc ''    color: #333;'') @ nl,
     (asc ''    border: 1px solid #e0e0e0;'') @ nl,
     (asc ''}'') @ nl,
     (asc ''.note-actions {'') @ nl,
     (asc ''    margin-top: 14px;'') @ nl,
     (asc ''    display: flex;'') @ nl,
     (asc ''    gap: 8px;'') @ nl,
     (asc ''}'') @ nl,
     (asc ''.note-btn {'') @ nl,
     (asc ''    padding: 8px 14px;'') @ nl,
     (asc ''    border: none;'') @ nl,
     (asc ''    border-radius: 5px;'') @ nl,
     (asc ''    cursor: pointer;'') @ nl,
     (asc ''    font-size: 13px;'') @ nl,
     (asc ''    font-weight: 500;'') @ nl,
     (asc ''}'') @ nl,
     (asc ''.note-btn-read {'') @ nl,
     (asc ''    background: #2a4a2a;'') @ nl,
     (asc ''    color: #8f8;'') @ nl,
     (asc ''}'') @ nl,
     (asc ''.note-btn-edit {'') @ nl,
     (asc ''    background: #4a4a2a;'') @ nl,
     (asc ''    color: #ff8;'') @ nl,
     (asc ''}'') @ nl,
     (asc ''.note-btn-delete {'') @ nl,
     (asc ''    background: #4a2a2a;'') @ nl,
     (asc ''    color: #f88;'') @ nl,
     (asc ''}'') @ nl,
     (asc ''.note-list-item {'') @ nl,
     (asc ''    border: 1px solid #333;'') @ nl,
     (asc ''    border-radius: 6px;'') @ nl,
     (asc ''    padding: 12px 16px;'') @ nl,
     (asc ''    margin: 6px 0;'') @ nl,
     (asc ''    background: #1a1a1a;'') @ nl,
     (asc ''    display: flex;'') @ nl,
     (asc ''    justify-content: space-between;'') @ nl,
     (asc ''    align-items: center;'') @ nl,
     (asc ''}'') @ nl,
     (asc ''.note-card-light .note-list-item {'') @ nl,
     (asc ''    background: #fff;'') @ nl,
     (asc ''    border-color: #ddd;'') @ nl,
     (asc ''}'') @ nl,
     (asc ''.note-list-title {'') @ nl,
     (asc ''    font-weight: 500;'') @ nl,
     (asc ''    color: #e0e0e0;'') @ nl,
     (asc ''}'') @ nl,
     (asc ''.note-card-light .note-list-title {'') @ nl,
     (asc ''    color: #222;'') @ nl,
     (asc ''}'') @ nl,
     (asc ''.note-list-meta {'') @ nl,
     (asc ''    color: #666;'') @ nl,
     (asc ''    font-size: 12px;'') @ nl,
     (asc ''}'') @ nl,
     (asc ''.note-error {'') @ nl,
     (asc ''    border: 1px solid #a33;'') @ nl,
     (asc ''    border-radius: 8px;'') @ nl,
     (asc ''    padding: 16px;'') @ nl,
     (asc ''    margin: 8px 0;'') @ nl,
     (asc ''    background: #2a1a1a;'') @ nl,
     (asc ''}'') @ nl,
     (asc ''.note-error-title {'') @ nl,
     (asc ''    color: #f66;'') @ nl,
     (asc ''    font-weight: 600;'') @ nl,
     (asc ''    margin-bottom: 6px;'') @ nl,
     (asc ''}'') @ nl,
     (asc ''.note-error-msg {'') @ nl,
     (asc ''    color: #a88;'') @ nl,
     (asc ''    font-size: 14px;'') @ nl,
     (asc ''}'') @ nl,
     (asc ''.note-help {'') @ nl,
     (asc ''    color: #888;'') @ nl,
     (asc ''    font-size: 13px;'') @ nl,
     (asc ''    margin-top: 12px;'') @ nl,
     (asc ''    padding: 10px;'') @ nl,
     (asc ''    background: #252525;'') @ nl,
     (asc ''    border-radius: 6px;'') @ nl,
     (asc ''}'') @ nl,
     (asc ''.note-card-light .note-help {'') @ nl,
     (asc ''    background: #f0f0f0;'') @ nl,
     (asc ''}'') @ nl,
     (asc ''</style>'') @ nl]\<close>

definition render_help :: pystr where
  \<open>render_help = concat [
     nl,
     (asc ''<div class="note-card">'') @ nl,
     (asc ''    <h3 class="note-title">Mariposa Notes - Help</h3>'') @ nl,
     (asc ''    <div class="note-content">'') @ nl,
     (asc ''<strong>Commands:</strong>'') @ nl,
     [0x201A, 0xC4, 0xA2] @ (asc '' <code>notes</code> or <code>/notes</code> '') @ [0x201A, 0xC4, 0xEE] @ (asc '' List all notes'') @ nl,
     [0x201A, 0xC4, 0xA2] @ (asc '' <code>read note-X</code> '') @ [0x201A, 0xC4, 0xEE] @ (asc '' View a specific note'') @ nl,
     [0x201A, 0xC4, 0xA2] @ (asc '' <code>search "query"</code> '') @ [0x201A, 0xC4, 0xEE] @ (asc '' Find notes by title/content'') @ nl,
     [0x201A, 0xC4, 0xA2] @ (asc '' <code>categories</code> '') @ [0x201A, 0xC4, 0xEE] @ (asc '' List all categories'') @ nl,
     [0x201A, 0xC4, 0xA2] @ (asc '' <code>tags</code> '') @ [0x201A, 0xC4, 0xEE] @ (asc '' List all tags'') @ nl,
     nl,
     (asc ''<strong>Creating & Editing:</strong>'') @ nl,
     [0x201A, 0xC4, 0xA2] @ (asc '' <code>create note titled "..."</code> '') @ [0x201A, 0xC4, 0xEE] @ (asc '' Create new note'') @ nl,
     [0x201A, 0xC4, 0xA2] @ (asc '' <code>delete note-X</code> '') @ [0x201A, 0xC4, 0xEE] @ (asc '' Delete a note'') @ nl,
     nl,
     (asc ''After viewing a note, you can ask me to:'') @ nl,
     [0x201A, 0xC4, 0xA2] @ (asc '' Change the title, content, category, or tags'') @ nl,
     [0x201A, 0xC4, 0xA2] @ (asc '' Summarize or expand the content'') @ nl,
     [0x201A, 0xC4, 0xA2] @ (asc '' Move it to a different category'') @ nl,
     (asc ''    </div>'') @ nl,
     (asc ''</div>'') @ nl]\<close>

text \<open>\<open>"".join(f'<span ...>{t}</span>' for t in x)\<close>\<close>

definition spans :: "pystr \<Rightarrow> pyval \<Rightarrow> pystr result" where
  "spans opening x =
     rbind (py_iter x) (\<lambda>ts. Inr (concat (map (\<lambda>t. opening @ py_str t @ (asc ''</span>'')) ts)))"

definition render_note_card :: "pyval \<Rightarrow> pystr result" where
  \<open>render_note_card note =
     rbind (py_get note (asc ''title'') (PStr (asc ''Untitled''))) (\<lambda>title.
     rbind (py_get note (asc ''slug'') (PStr [])) (\<lambda>slug.
     rbind (py_get note (asc ''category'') (PStr (asc ''uncategorized''))) (\<lambda>category.
     rbind (py_get note (asc ''tags'') (PList [])) (\<lambda>tags.
     rbind (py_get note (asc ''content'') (PStr [])) (\<lambda>content.
     rbind (py_get note (asc ''updatedAt'') (PStr [])) (\<lambda>updated.
     rbind (if truthy tags then spans (asc ''<span class="note-tag">'') tags
            else Inr (asc ''<span style="color:#666;font-size:12px;">no tags</span>'')) (\<lambda>tags_html.
       Inr (
         nl @ (asc ''<div class="note-card">'') @ nl @
         (asc ''    <div class="note-header">'') @ nl @
         (asc ''        <h3 class="note-title">'') @ py_str title @ (asc ''</h3>'') @ nl @
         (asc ''        <span class="note-category">'') @ py_str category @ (asc ''</span>'') @ nl @
         (asc ''    </div>'') @ nl @ (asc ''    <div class="note-tags">'') @ tags_html @ (asc ''</div>'') @ nl @
         (asc ''    <div class="note-meta">'') @ nl @
         (asc ''        <strong>Slug:</strong> '') @ py_str slug @
         (asc '' &nbsp;|&nbsp; <strong>Updated:</strong> '') @ py_str updated @ nl @
         (asc ''    </div>'') @ nl @ (asc ''    <div class="note-content">'') @
         (if truthy content then py_str content else (asc ''(empty)'')) @ (asc ''</div>'') @ nl @
         (asc ''    <div class="note-help">'') @ nl @
         (asc ''        '') @
         [0xF8FF, 0xFC, 0xED, 0xB0] @
         (asc '' To modify: <code>change title to "..."</code> '') @
         [0xAC, 0x2211] @ (asc '' <code>add tag "..."</code> '') @
         [0xAC, 0x2211] @
         (asc '' <code>update content to "..."</code>'') @ nl @
         (asc ''    </div>'') @ nl @ (asc ''</div>'') @ nl))))))))\<close>

definition render_error :: "pystr \<Rightarrow> pystr \<Rightarrow> pystr" where
  \<open>render_error title message =
     nl @ (asc ''<div class="note-error">'') @ nl @
     (asc ''    <div class="note-error-title">'') @
     [0x201A, 0xF6, 0x2020, 0xD4, 0x220F, 0xE8] @
     (asc '' '') @ title @ (asc ''</div>'') @ nl @
     (asc ''    <div class="note-error-msg">'') @ message @ (asc ''</div>'') @ nl @
     (asc ''</div>'') @ nl\<close>

definition note_list_item :: "pyval \<Rightarrow> pystr result" where
  \<open>note_list_item n =
     rbind (py_get n (asc ''title'') (PStr (asc ''Untitled''))) (\<lambda>title.
     rbind (py_get n (asc ''slug'') (PStr [])) (\<lambda>slug.
     rbind (py_get n (asc ''category'') (PStr [])) (\<lambda>category.
     rbind (py_get n (asc ''tags'') (PList [])) (\<lambda>tags.
     rbind (py_len tags) (\<lambda>tag_count. Inr (
       nl @ (asc ''<div class="note-list-item">'') @ nl @
       (asc ''    <span class="note-list-title">'') @ py_str title @ (asc ''</span>'') @ nl @
       (asc ''    <span class="note-list-meta">'') @ py_str category @ (asc '' '') @
       [0xAC, 0x2211] @ (asc '' '') @ show_nat tag_count @ (asc '' tags '') @
       [0xAC, 0x2211] @ (asc '' <code>'') @ py_str slug @
       (asc ''</code></span>'') @ nl @ (asc ''</div>'') @ nl))))))\<close>

definition render_note_list :: "pyval \<Rightarrow> pystr result" where
  \<open>render_note_list notes =
     (if \<not> truthy notes then
        Inr (render_error (asc ''No notes found'') (
          (asc ''You don'') @ [0x27] @
          (asc ''t have any notes yet. Say <code>create note titled "..."</code> to make one.'')))
      else
        rbind (py_iter notes) (\<lambda>ns.
        rbind (map_result note_list_item ns) (\<lambda>items.
        rbind (py_len notes) (\<lambda>n. Inr (
          nl @ (asc ''<div class="note-card">'') @ nl @
          (asc ''    <h3 class="note-title">Your Notes ('') @ show_nat n @ (asc '')</h3>'') @ nl @
          (asc ''    <div style="margin-top:12px;">'') @ nl @
          (asc ''        '') @ concat items @ nl @
          (asc ''    </div>'') @ nl @ (asc ''    <div class="note-help">'') @ nl @
          (asc ''        '') @
          [0xF8FF, 0xFC, 0xED, 0xB0] @
          (asc '' Say <code>read note-X</code> to view a note '') @
          [0xAC, 0x2211] @
          (asc '' <code>search "..."</code> to filter'') @ nl @
          (asc ''    </div>'') @ nl @ (asc ''</div>'') @ nl)))))\<close>

definition render_categories :: "pyval \<Rightarrow> pystr result" where
  \<open>render_categories categories =
     (if \<not> truthy categories then Inr (render_error (asc ''No categories'') (asc ''No categories found.''))
      else
        rbind (spans (asc ''<span class="note-tag" style="margin:4px;">'') categories) (\<lambda>items. Inr (
          nl @ (asc ''<div class="note-card">'') @ nl @
          (asc ''    <h3 class="note-title">Categories</h3>'') @ nl @
          (asc ''    <div style="margin-top:12px;">'') @ items @ (asc ''</div>'') @ nl @
          (asc ''</div>'') @ nl)))\<close>

definition render_tags_list :: "pyval \<Rightarrow> pystr result" where
  \<open>render_tags_list tags =
     (if \<not> truthy tags then Inr (render_error (asc ''No tags'') (asc ''No tags found.''))
      else
        rbind (spans (asc ''<span class="note-tag" style="margin:4px;">'') tags) (\<lambda>items. Inr (
          nl @ (asc ''<div class="note-card">'') @ nl @
          (asc ''    <h3 class="note-title">All Tags</h3>'') @ nl @
          (asc ''    <div style="margin-top:12px;">'') @ items @ (asc ''</div>'') @ nl @
          (asc ''</div>'') @ nl)))\<close>

definition render_deleted :: "pystr \<Rightarrow> pystr" where
  \<open>render_deleted slug =
     nl @ (asc ''<div class="note-card" style="border-color:#4a4;">'') @ nl @
     (asc ''    <h3 class="note-title" style="color:#8f8;">'') @
     [0x201A, 0xFA, 0xEC] @
     (asc '' Note Deleted</h3>'') @ nl @ (asc ''    <div class="note-meta">Successfully deleted <code>'') @
     slug @ (asc ''</code></div>'') @ nl @
     (asc ''</div>'') @ nl\<close>

section \<open>Adapter B: the pipe\<close>

definition artifact :: "pystr \<Rightarrow> pystr" where
  "artifact html = (asc ''```html'') @ nl @ css_styles @ nl @ html @ nl @ (asc ''```'')"

definition fallback_message :: "pystr \<Rightarrow> pystr" where
  \<open>fallback_message user_msg =
     (asc ''I received: "'') @ user_msg @ (asc ''"'') @ nl @
     nl @ (asc ''This doesn'') @ [0x27] @ (asc ''t match a notes command. Available commands:'') @ nl @
     (asc ''- `notes` '') @ [0x201A, 0xC4, 0xEE] @
     (asc '' List all notes  '') @ nl @ (asc ''- `read note-X` '') @
     [0x201A, 0xC4, 0xEE] @
     (asc '' View a note'') @ nl @ (asc ''- `search "query"` '') @
     [0x201A, 0xC4, 0xEE] @ (asc '' Find notes'') @
     nl @ (asc ''- `help` '') @
     [0x201A, 0xC4, 0xEE] @
     (asc '' Show all commands'') @ nl @ nl @ (asc ''Or ask me naturally about your notes and I'') @
     [0x27] @ (asc ''ll use the Mariposa tools to help!'')\<close>

text \<open>The chain of tests of \<open>pipe\<close> on the normalised text, in the order of the source.\<close>

definition pipe_classify :: "pystr \<Rightarrow> command" where
  "pipe_classify cmd =
     (if cmd \<in> set [(asc ''help''), (asc ''/help''), (asc ''?''), (asc ''notes help'')] then Help
      else if cmd \<in> set [(asc ''notes''), (asc ''/notes''), (asc ''list notes''), (asc ''show notes''), (asc ''my notes'')]
        then ListNotes
      else (case re_match False pipe_read_pattern cmd of
              Some slug \<Rightarrow> ReadNote slug
            | None \<Rightarrow>
                (case re_match False pipe_search_pattern cmd of
                   Some query \<Rightarrow> SearchNotes query
                 | None \<Rightarrow>
                     (if cmd \<in> set [(asc ''categories''), (asc ''/categories''), (asc ''list categories''),
                                      (asc ''show categories'')] then ListCategories
                      else if cmd \<in> set [(asc ''tags''), (asc ''/tags''), (asc ''list tags''), (asc ''show tags''),
                                           (asc ''all tags'')] then ListTags
                      else (case re_match False pipe_delete_pattern cmd of
                              Some slug \<Rightarrow> DeleteNote slug
                            | None \<Rightarrow> Unrecognized)))))"

definition pipe_list_notes :: "pipe_valves \<Rightarrow> service \<Rightarrow> pystr result" where
  "pipe_list_notes v svc =
     (let data = pipe_fetch_notes v svc None
      in rbind (py_contains (asc ''error'') data) (\<lambda>failed.
           if failed then
             rbind (py_getitem data (asc ''error'')) (\<lambda>err.
               Inr (artifact (render_error (asc ''Connection Error'')
                                ((asc ''Could not reach Mariposa: '') @ py_str err))))
           else
             rbind (py_get data (asc ''notes'') (PList [])) (\<lambda>notes.
             rbind (render_note_list notes) (\<lambda>html. Inr (artifact html)))))"

definition pipe_read :: "pipe_valves \<Rightarrow> service \<Rightarrow> pystr \<Rightarrow> pystr result" where
  "pipe_read v svc slug =
     (let note = pipe_fetch_note v svc slug
      in rbind (if \<not> truthy note then Inr True else py_contains (asc ''error'') note) (\<lambda>failed.
           if failed then
             Inr (artifact (render_error (asc ''Note not found'')
                              ((asc ''Could not find <code>'') @ slug @ (asc ''</code>''))))
           else rbind (render_note_card note) (\<lambda>html. Inr (artifact html))))"

definition pipe_search :: "pipe_valves \<Rightarrow> service \<Rightarrow> pystr \<Rightarrow> pystr result" where
  \<open>pipe_search v svc query =
     (let data = pipe_fetch_notes v svc (Some [(asc ''search'', query)])
      in rbind (py_contains (asc ''error'') data) (\<lambda>failed.
           if failed then
             rbind (py_getitem data (asc ''error'')) (\<lambda>err.
               Inr (artifact (render_error (asc ''Search Error'') (py_str err))))
           else
             rbind (py_get data (asc ''notes'') (PList [])) (\<lambda>notes.
               if \<not> truthy notes then
                 Inr (artifact (render_error (asc ''No results'')
                                  ((asc ''No notes found matching "'') @ query @ (asc ''"''))))
               else
                 rbind (render_note_list notes) (\<lambda>html.
                   Inr (artifact (
                     (asc ''<div style="color:#888;margin-bottom:8px;">Search results for "'') @ query @
                     (asc ''":</div>'') @ html))))))\<close>

definition pipe_categories :: "pipe_valves \<Rightarrow> service \<Rightarrow> pystr result" where
  "pipe_categories v svc =
     rbind (pipe_fetch_categories v svc) (\<lambda>categories.
     rbind (render_categories categories) (\<lambda>html. Inr (artifact html)))"

definition pipe_tags :: "pipe_valves \<Rightarrow> service \<Rightarrow> pystr result" where
  "pipe_tags v svc =
     rbind (pipe_fetch_tags v svc) (\<lambda>tags.
     rbind (render_tags_list tags) (\<lambda>html. Inr (artifact html)))"

definition pipe_delete :: "pipe_valves \<Rightarrow> service \<Rightarrow> pystr \<Rightarrow> pystr result" where
  "pipe_delete v svc slug =
     (let result = pipe_api_delete v svc ((asc ''/api/notes/'') @ slug)
      in rbind (py_get result (asc ''success'') PNone) (\<lambda>success.
           if truthy success then Inr (artifact (render_deleted slug))
           else
             rbind (py_get result (asc ''error'') (PStr (asc ''Unknown error''))) (\<lambda>err.
               Inr (artifact (render_error (asc ''Delete Failed'')
                                ((asc ''Could not delete '') @ slug @ (asc '': '') @ py_str err))))))"

definition pipe_text :: "pipe_valves \<Rightarrow> service \<Rightarrow> pystr \<Rightarrow> pystr result" where
  "pipe_text v svc content =
     (let user_msg = strip content;
          cmd = strip (lower user_msg)
      in case pipe_classify cmd of
           Help \<Rightarrow> Inr (artifact render_help)
         | ListNotes \<Rightarrow> pipe_list_notes v svc
         | ReadNote slug \<Rightarrow> pipe_read v svc slug
         | SearchNotes query \<Rightarrow> pipe_search v svc query
         | ListCategories \<Rightarrow> pipe_categories v svc
         | ListTags \<Rightarrow> pipe_tags v svc
         | DeleteNote slug \<Rightarrow> pipe_delete v svc slug
         | _ \<Rightarrow> Inr (fallback_message user_msg))"

definition pipe :: "pipe_valves \<Rightarrow> service \<Rightarrow> body \<Rightarrow> pystr result" where
  "pipe v svc body =
     (let messages = (case map_of body (asc ''messages'') of Some m \<Rightarrow> m | None \<Rightarrow> PList [])
      in if \<not> truthy messages then Inr (asc ''No messages received.'')
         else
           rbind (py_last messages) (\<lambda>last_message.
           rbind (py_get last_message (asc ''content'') (PStr [])) (\<lambda>content.
             case content of
               PStr text \<Rightarrow> pipe_text v svc text
             | _ \<Rightarrow> Inl AttributeError)))"

section \<open>Failure outcomes and sample inputs\<close>

text \<open>
  A GET fails when the library raises, when the status is one \<open>raise_for_status\<close> rejects,
  or when the body does not decode. A DELETE fails when the library raises or the status
  is not 204.
\<close>

definition get_fails :: "outcome \<Rightarrow> bool" where
  "get_fails out =
     (case out of
        Raised msg \<Rightarrow> True
      | Returned r \<Rightarrow> (400 \<le> status_code r \<and> status_code r < 600) \<or> isl (json_body r))"

definition delete_fails :: "outcome \<Rightarrow> bool" where
  "delete_fails out = (case out of Raised msg \<Rightarrow> True | Returned r \<Rightarrow> status_code r \<noteq> 204)"

definition is_error_dict :: "pyval \<Rightarrow> bool" where
  "is_error_dict x = (case x of PDict [(k, PStr msg)] \<Rightarrow> k = (asc ''error'') | _ \<Rightarrow> False)"

definition default_filter_valves :: filter_valves where
  "default_filter_valves =
     \<lparr>mariposa_url = (asc ''http://host.docker.internal:3020''),
      enable_auto_fetch = True, enable_slash_commands = True\<rparr>"

definition default_pipe_valves :: pipe_valves where
  "default_pipe_valves =
     \<lparr>mariposa_url = (asc ''http://host.docker.internal:3020''), passthrough_model = []\<rparr>"

definition unreachable_service :: service where
  "unreachable_service req = Raised (asc ''Connection refused'')"

definition multimodal_body :: body where
  "multimodal_body =
     [(asc ''model'', PStr (asc ''mariposa'')),
      (asc ''messages'',
       PList [PDict [(asc ''role'', PStr (asc ''user'')),
                     (asc ''content'',
                      PList [PDict [(asc ''type'', PStr (asc ''text'')),
                                    (asc ''text'', PStr (asc ''notes''))]])]])]"

definition sample_body :: "pystr \<Rightarrow> body" where
  "sample_body content =
     [(asc ''model'', PStr (asc ''mariposa'')),
      (asc ''messages'',
       PList [PDict [(asc ''role'', PStr (asc ''system'')),
                     (asc ''content'', PStr (asc ''Be brief.''))],
              PDict [(asc ''role'', PStr (asc ''user'')), (asc ''content'', PStr content)]]),
      (asc ''stream'', PBool True)]"

text \<open>
  A reply is in the shape the client expects when it is a failure or its decoded body is
  a JSON object.
\<close>

definition object_or_failure :: "outcome \<Rightarrow> bool" where
  "object_or_failure out =
     (case out of
        Raised msg \<Rightarrow> True
      | Returned r \<Rightarrow>
          (400 \<le> status_code r \<and> status_code r < 600)
          \<or> (case json_body r of Inl msg \<Rightarrow> True | Inr (PDict kvs) \<Rightarrow> True | Inr _ \<Rightarrow> False))"

text \<open>A service that answers every request with status 300 and a note object.\<close>

definition multiple_choices_service :: service where
  "multiple_choices_service req =
     Returned \<lparr>status_code = 300, status_error = [],
               json_body = Inr (PDict [(asc ''title'', PStr (asc ''Plan''))])\<rparr>"

text \<open>Services that answer every request with status 200 and a body that is no object.\<close>

definition null_service :: service where
  "null_service req = Returned \<lparr>status_code = 200, status_error = [], json_body = Inr PNone\<rparr>"

definition list_service :: service where
  "list_service req =
     Returned \<lparr>status_code = 200, status_error = [], json_body = Inr (PList [PInt 1])\<rparr>"

definition number_service :: service where
  "number_service req =
     Returned \<lparr>status_code = 200, status_error = [], json_body = Inr (PInt 5)\<rparr>"

section \<open>Mentions of notes\<close>


definition slug_at :: "pystr \<Rightarrow> pystr" where
  "slug_at t = take 5 t @ takeWhile is_digit (drop 5 t)"


section \<open>Properties of the notes client\<close>

lemma try_get_fails:
  "get_fails (svc (GET url)) \<Longrightarrow> \<exists>msg. try_get svc url = Inl msg"
  by (cases "svc (GET url)")
     (auto simp: get_fails_def try_get_def raise_for_status_def isl_def)

lemma try_get_object:
  "object_or_failure (svc (GET url)) \<Longrightarrow>
     (\<exists>msg. try_get svc url = Inl msg) \<or> (\<exists>kvs. try_get svc url = Inr (PDict kvs))"
  by (cases "svc (GET url)")
     (auto simp: object_or_failure_def try_get_def raise_for_status_def
           split: sum.splits pyval.splits)

lemma filter_api_get_fails:
  "get_fails (svc (GET (mariposa_url v @ e))) \<Longrightarrow> filter_api_get v svc e = PNone"
  using try_get_fails [of svc "mariposa_url v @ e"]
  by (auto simp: filter_api_get_def)

lemma filter_api_get_object:
  "object_or_failure (svc (GET (mariposa_url v @ e))) \<Longrightarrow>
     filter_api_get v svc e = PNone \<or> (\<exists>kvs. filter_api_get v svc e = PDict kvs)"
  using try_get_object [of svc "mariposa_url v @ e"]
  by (auto simp: filter_api_get_def)

lemma filter_list_total:
  assumes "object_or_failure (svc (GET (mariposa_url v @ e)))"
  shows "\<not> isl (let data = filter_api_get v svc e
                  in if truthy data then py_get data key (PList []) else Inr (PList []))"
  using assms filter_api_get_object [of svc v e] by (auto simp: Let_def)

lemma pipe_api_get_fails:
  "get_fails (svc (GET (mariposa_url v @ e))) \<Longrightarrow> is_error_dict (pipe_api_get v svc e)"
  using try_get_fails [of svc "mariposa_url v @ e"]
  by (auto simp: pipe_api_get_def is_error_dict_def)

lemma pipe_fetch_key_fails:
  assumes "get_fails (svc (GET (mariposa_url v @ e)))" and "key \<noteq> asc ''error''"
  shows "pipe_fetch_key v svc e key = Inr (PList [])"
proof -
  from assms(1) try_get_fails [of svc "mariposa_url v @ e"]
  obtain msg where "pipe_api_get v svc e = PDict [(asc ''error'', PStr msg)]"
    by (auto simp: pipe_api_get_def)
  with assms(2) show ?thesis
    by (auto simp: pipe_fetch_key_def)
qed

lemma pipe_fetch_key_total:
  assumes "object_or_failure (svc (GET (mariposa_url v @ e)))"
  shows "\<not> isl (pipe_fetch_key v svc e key)"
proof -
  from assms try_get_object [of svc "mariposa_url v @ e"]
  obtain kvs where d: "pipe_api_get v svc e = PDict kvs"
    by (auto simp: pipe_api_get_def)
  have "\<not> isl (py_getitem (PDict kvs) key)" if "key \<in> fst ` set kvs"
    using that by (cases "map_of kvs key") (auto simp: map_of_eq_None_iff)
  then show ?thesis
    by (simp add: pipe_fetch_key_def d Let_def del: py_getitem.simps)
qed

lemma asc_keys_not_error:
  "asc ''categories'' \<noteq> asc ''error''" "asc ''tags'' \<noteq> asc ''error''"
  by (simp_all add: asc_def)

text \<open>
  C1 (as amended). On every reply that is a failure or a JSON object, no operation of the
  notes client raises. When a GET fails (the library raises, the status is 400 to 599, or
  the body does not decode), Adapter A's \<open>fetch_note\<close> returns None and its three list
  operations return the empty list; when a DELETE fails (the library raises or the status
  is not 204), Adapter A's \<open>api_delete\<close> returns False. In Adapter B, \<open>fetch_note\<close>,
  \<open>fetch_notes\<close> and \<open>api_delete\<close> return on these failures a dictionary whose only
  entry is an error message under \<open>error\<close>, while \<open>fetch_categories\<close> and
  \<open>fetch_tags\<close> return the empty list and carry no message. \<open>fetch_note\<close>,
  \<open>api_delete\<close> and Adapter B's \<open>fetch_notes\<close> return a value on every reply
  whatsoever; nothing is said of the list operations on a decoded body that is no object.
\<close>

theorem notes_client_failure_results:
  "(get_fails (svc (GET (mariposa_url va @ asc ''/api/notes/'' @ slug)))
      \<longrightarrow> filter_fetch_note va svc slug = PNone)
   \<and> (object_or_failure (svc (GET (mariposa_url va @ asc ''/api/notes'' @ notes_query params)))
      \<longrightarrow> \<not> isl (filter_fetch_notes va svc params))
   \<and> (get_fails (svc (GET (mariposa_url va @ asc ''/api/notes'' @ notes_query params)))
      \<longrightarrow> filter_fetch_notes va svc params = Inr (PList []))
   \<and> (object_or_failure (svc (GET (mariposa_url va @ asc ''/api/categories'')))
      \<longrightarrow> \<not> isl (filter_fetch_categories va svc))
   \<and> (get_fails (svc (GET (mariposa_url va @ asc ''/api/categories'')))
      \<longrightarrow> filter_fetch_categories va svc = Inr (PList []))
   \<and> (object_or_failure (svc (GET (mariposa_url va @ asc ''/api/tags'')))
      \<longrightarrow> \<not> isl (filter_fetch_tags va svc))
   \<and> (get_fails (svc (GET (mariposa_url va @ asc ''/api/tags'')))
      \<longrightarrow> filter_fetch_tags va svc = Inr (PList []))
   \<and> (delete_fails (svc (DELETE (mariposa_url va @ asc ''/api/notes/'' @ slug)))
      \<longrightarrow> filter_api_delete va svc (asc ''/api/notes/'' @ slug) = False)
   \<and> (get_fails (svc (GET (mariposa_url vb @ asc ''/api/notes/'' @ slug)))
      \<longrightarrow> is_error_dict (pipe_fetch_note vb svc slug))
   \<and> (get_fails (svc (GET (mariposa_url vb @ asc ''/api/notes'' @ notes_query params)))
      \<longrightarrow> is_error_dict (pipe_fetch_notes vb svc params))
   \<and> (object_or_failure (svc (GET (mariposa_url vb @ asc ''/api/categories'')))
      \<longrightarrow> \<not> isl (pipe_fetch_categories vb svc))
   \<and> (get_fails (svc (GET (mariposa_url vb @ asc ''/api/categories'')))
      \<longrightarrow> pipe_fetch_categories vb svc = Inr (PList []))
   \<and> (object_or_failure (svc (GET (mariposa_url vb @ asc ''/api/tags'')))
      \<longrightarrow> \<not> isl (pipe_fetch_tags vb svc))
   \<and> (get_fails (svc (GET (mariposa_url vb @ asc ''/api/tags'')))
      \<longrightarrow> pipe_fetch_tags vb svc = Inr (PList []))
   \<and> (delete_fails (svc (DELETE (mariposa_url vb @ asc ''/api/notes/'' @ slug)))
      \<longrightarrow> is_error_dict (pipe_api_delete vb svc (asc ''/api/notes/'' @ slug)))"
proof -
  have a_del: "delete_fails (svc (DELETE (mariposa_url va @ asc ''/api/notes/'' @ slug)))
      \<longrightarrow> filter_api_delete va svc (asc ''/api/notes/'' @ slug) = False"
    by (auto simp: delete_fails_def filter_api_delete_def split: outcome.splits)
  have b_del: "delete_fails (svc (DELETE (mariposa_url vb @ asc ''/api/notes/'' @ slug)))
      \<longrightarrow> is_error_dict (pipe_api_delete vb svc (asc ''/api/notes/'' @ slug))"
    by (auto simp: delete_fails_def pipe_api_delete_def is_error_dict_def split: outcome.splits)
  have a_total:
    "object_or_failure (svc (GET (mariposa_url va @ asc ''/api/notes'' @ notes_query params)))
       \<longrightarrow> \<not> isl (filter_fetch_notes va svc params)"
    "object_or_failure (svc (GET (mariposa_url va @ asc ''/api/categories'')))
       \<longrightarrow> \<not> isl (filter_fetch_categories va svc)"
    "object_or_failure (svc (GET (mariposa_url va @ asc ''/api/tags'')))
       \<longrightarrow> \<not> isl (filter_fetch_tags va svc)"
    unfolding filter_fetch_notes_def filter_fetch_categories_def filter_fetch_tags_def
    using filter_list_total by blast+
  have b_total:
    "object_or_failure (svc (GET (mariposa_url vb @ asc ''/api/categories'')))
       \<longrightarrow> \<not> isl (pipe_fetch_categories vb svc)"
    "object_or_failure (svc (GET (mariposa_url vb @ asc ''/api/tags'')))
       \<longrightarrow> \<not> isl (pipe_fetch_tags vb svc)"
    unfolding pipe_fetch_categories_def pipe_fetch_tags_def
    using pipe_fetch_key_total by blast+
  show ?thesis
    using a_del b_del a_total b_total
    by (simp add: filter_fetch_note_def filter_fetch_notes_def filter_fetch_categories_def
          filter_fetch_tags_def pipe_fetch_note_def pipe_fetch_notes_def
          pipe_fetch_categories_def pipe_fetch_tags_def asc_keys_not_error
          filter_api_get_fails pipe_api_get_fails pipe_fetch_key_fails)
qed

theorem notes_client_failure_results_witness:
  "filter_fetch_note default_filter_valves unreachable_service (asc ''note-1'') = PNone
   \<and> \<not> isl (filter_fetch_notes default_filter_valves unreachable_service None)
   \<and> filter_fetch_notes default_filter_valves unreachable_service None = Inr (PList [])
   \<and> \<not> isl (filter_fetch_categories default_filter_valves unreachable_service)
   \<and> filter_fetch_categories default_filter_valves unreachable_service = Inr (PList [])
   \<and> \<not> isl (filter_fetch_tags default_filter_valves unreachable_service)
   \<and> filter_fetch_tags default_filter_valves unreachable_service = Inr (PList [])
   \<and> filter_api_delete default_filter_valves unreachable_service (asc ''/api/notes/note-1'')
       = False
   \<and> is_error_dict (pipe_fetch_note default_pipe_valves unreachable_service (asc ''note-1''))
   \<and> is_error_dict (pipe_fetch_notes default_pipe_valves unreachable_service None)
   \<and> \<not> isl (pipe_fetch_categories default_pipe_valves unreachable_service)
   \<and> pipe_fetch_categories default_pipe_valves unreachable_service = Inr (PList [])
   \<and> \<not> isl (pipe_fetch_tags default_pipe_valves unreachable_service)
   \<and> pipe_fetch_tags default_pipe_valves unreachable_service = Inr (PList [])
   \<and> is_error_dict (pipe_api_delete default_pipe_valves unreachable_service
                        (asc ''/api/notes/note-1''))"
  using notes_client_failure_results
    [of unreachable_service default_filter_valves "asc ''note-1''" None default_pipe_valves]
  by (simp add: get_fails_def delete_fails_def object_or_failure_def unreachable_service_def
        asc_def)

text \<open>
  C1 as stated fails in two places. With the service unreachable, Adapter B's category
  listing is the bare empty list, with no error message in it; and on a reply with
  status 300, which is not a 2xx status, Adapter A's \<open>fetch_note\<close> returns the decoded
  object, not None, because \<open>raise_for_status\<close> lets the status pass.
\<close>

theorem notes_client_claim_fails:
  "pipe_fetch_categories default_pipe_valves unreachable_service = Inr (PList [])
   \<and> \<not> is_error_dict (PList [])
   \<and> filter_fetch_note default_filter_valves multiple_choices_service (asc ''note-1'')
       = PDict [(asc ''title'', PStr (asc ''Plan''))]"
  by (simp add: pipe_fetch_categories_def pipe_fetch_key_def pipe_api_get_def try_get_def
        unreachable_service_def is_error_dict_def filter_fetch_note_def filter_api_get_def
        multiple_choices_service_def raise_for_status_def asc_def)

text \<open>
  The replies the amended C1 leaves out: a decoded body that is no object makes the list
  operations raise (the defect recorded under C2).
\<close>

lemma list_operations_raise_on_non_object:
  "filter_fetch_notes default_filter_valves list_service None = Inl AttributeError"
  "pipe_fetch_categories default_pipe_valves number_service = Inl TypeError"
  by (simp_all add: filter_fetch_notes_def filter_api_get_def try_get_def list_service_def
        raise_for_status_def pipe_fetch_categories_def pipe_fetch_key_def pipe_api_get_def
        number_service_def)

section \<open>Normalising a message\<close>

lemma lower_char_not_Nil: "lower_char c \<noteq> []"
  by (simp add: lower_char_def)

lemma is_space_hd_lower_char: "is_space (hd (lower_char c)) = is_space c"
  by (auto simp: lower_char_def is_space_def)

lemma is_space_last_lower_char: "is_space (last (lower_char c)) = is_space c"
  by (auto simp: lower_char_def is_space_def)

lemma hd_lower: "w \<noteq> [] \<Longrightarrow> hd (lower w) = hd (lower_char (hd w))"
  by (cases w) (simp_all add: lower_def lower_char_not_Nil)

lemma last_lower: "w \<noteq> [] \<Longrightarrow> last (lower w) = last (lower_char (last w))"
  by (induction w rule: rev_induct) (simp_all add: lower_def lower_char_not_Nil)

lemma lower_Nil_iff: "lower w = [] \<longleftrightarrow> w = []"
  by (cases w) (simp_all add: lower_def lower_char_not_Nil)

lemma dropWhile_all_then:
  "\<forall>c\<in>set xs. P c \<Longrightarrow> ys = [] \<or> \<not> P (hd ys) \<Longrightarrow> dropWhile P (xs @ ys) = ys"
  by (induction xs) (auto simp: dropWhile_eq_self_iff)

lemma takeWhile_all_then:
  "\<forall>c\<in>set xs. P c \<Longrightarrow> ys = [] \<or> \<not> P (hd ys) \<Longrightarrow> takeWhile P (xs @ ys) = xs"
  by (induction xs) (auto simp: takeWhile_eq_Nil_iff)

lemma strip_sandwich:
  assumes "\<forall>c\<in>set pre. is_space c" "\<forall>c\<in>set post. is_space c"
    and "w \<noteq> []" "\<not> is_space (hd w)" "\<not> is_space (last w)"
  shows "strip (pre @ w @ post) = w"
proof -
  have 1: "dropWhile is_space (pre @ w @ post) = w @ post"
    using assms(1,3,4) dropWhile_all_then [of pre is_space "w @ post"] by simp
  have 2: "dropWhile is_space (rev post @ rev w) = rev w"
    using assms(2,3,5) dropWhile_all_then [of "rev post" is_space "rev w"] by (simp add: hd_rev)
  show ?thesis by (simp add: strip_def 1 2)
qed

lemma lower_ends:
  assumes "lower w = k" "k \<noteq> []" "\<not> is_space (hd k)" "\<not> is_space (last k)"
  shows "w \<noteq> [] \<and> \<not> is_space (hd w) \<and> \<not> is_space (last w)"
proof -
  from assms(1,2) have w: "w \<noteq> []" by (auto simp: lower_Nil_iff)
  with assms show ?thesis
    using hd_lower [OF w] last_lower [OF w]
    by (auto simp: is_space_hd_lower_char is_space_last_lower_char)
qed

lemma strip_noop: "s \<noteq> [] \<Longrightarrow> \<not> is_space (hd s) \<Longrightarrow> \<not> is_space (last s) \<Longrightarrow> strip s = s"
  using strip_sandwich [of "[]" "[]" s] by simp

lemma normalise_keyword:
  assumes "\<forall>c\<in>set pre. is_space c" "\<forall>c\<in>set post. is_space c"
    and "lower w = k" "k \<noteq> []" "\<not> is_space (hd k)" "\<not> is_space (last k)"
  shows "strip (lower (strip (pre @ w @ post))) = k"
proof -
  from lower_ends [OF assms(3-6)] have "strip (pre @ w @ post) = w"
    using assms(1,2) by (simp add: strip_sandwich)
  then show ?thesis using assms(3-6) by (simp add: strip_noop)
qed

text \<open>
  C3. A message that is one of the exact list-notes keywords of an adapter, in any letter
  case and with any white space around it, is classified as the list-notes command:
  by Adapter A for \<open>/notes\<close> and \<open>notes\<close> (and, with slash commands enabled,
  \<open>inlet\<close> handles it as a note listing), by Adapter B for its five keywords.
\<close>

theorem list_notes_keywords:
  assumes "\<forall>c\<in>set pre. is_space c" and "\<forall>c\<in>set post. is_space c" and "lower w = k"
  shows "(k \<in> {asc ''/notes'', asc ''notes''} \<longrightarrow>
            filter_classify (strip (lower (strip (pre @ w @ post)))) = ListNotes
            \<and> (enable_slash_commands va \<longrightarrow>
                 inlet_text va svc set_order em body (pre @ w @ post)
                   = inlet_list_notes va svc em body))
       \<and> (k \<in> {asc ''notes'', asc ''/notes'', asc ''list notes'', asc ''show notes'',
                 asc ''my notes''} \<longrightarrow>
            pipe_classify (strip (lower (strip (pre @ w @ post)))) = ListNotes
            \<and> pipe_text vb svc (pre @ w @ post) = pipe_list_notes vb svc)"
proof -
  have n: "strip (lower (strip (pre @ w @ post))) = k"
    if "k \<in> {asc ''notes'', asc ''/notes'', asc ''list notes'', asc ''show notes'',
              asc ''my notes''}"
    using that normalise_keyword [OF assms(1,2,3)] by (auto simp: is_space_def asc_def)
  have a: "filter_classify (asc ''/notes'') = ListNotes" "filter_classify (asc ''notes'') = ListNotes"
    by (simp_all add: filter_classify_def)
  have b: "pipe_classify (asc ''notes'') = ListNotes" "pipe_classify (asc ''/notes'') = ListNotes"
    "pipe_classify (asc ''list notes'') = ListNotes"
    "pipe_classify (asc ''show notes'') = ListNotes"
    "pipe_classify (asc ''my notes'') = ListNotes"
    by (simp_all add: pipe_classify_def asc_def)
  show ?thesis
    using n by (auto simp: inlet_text_def pipe_text_def Let_def a b)
qed

theorem list_notes_keywords_witness:
  "filter_classify (strip (lower (strip ([0xA0, 0x20] @ asc ''/Notes'' @ [0x3000])))) = ListNotes
   \<and> inlet_text default_filter_valves unreachable_service remdups False
         (sample_body (asc ''x'')) ([0xA0, 0x20] @ asc ''/Notes'' @ [0x3000])
       = inlet_list_notes default_filter_valves unreachable_service False (sample_body (asc ''x''))
   \<and> pipe_classify (strip (lower (strip ([0xA0, 0x20] @ asc ''/Notes'' @ [0x3000])))) = ListNotes
   \<and> pipe_text default_pipe_valves unreachable_service ([0xA0, 0x20] @ asc ''/Notes'' @ [0x3000])
       = pipe_list_notes default_pipe_valves unreachable_service"
  using list_notes_keywords [of "[0xA0, 0x20]" "[0x3000]" "asc ''/Notes''" "asc ''/notes''"
          default_filter_valves unreachable_service remdups False "sample_body (asc ''x'')"
          default_pipe_valves]
  by (simp add: is_space_def lower_def lower_char_def default_filter_valves_def asc_def)

section \<open>Properties of the adapters\<close>

text \<open>
  C2. The claim is that neither adapter ever raises. On a chat turn whose last message has
  a list of content parts instead of a string, \<open>pipe\<close> calls \<open>strip\<close> on the list
  and raises AttributeError; \<open>inlet\<close> has the \<open>isinstance\<close> test and returns the body
  as it is.
\<close>

theorem pipe_raises_on_non_string_content:
  "pipe default_pipe_valves unreachable_service multimodal_body = Inl AttributeError
   \<and> inlet default_filter_valves unreachable_service remdups False multimodal_body
       = Inr ([], multimodal_body)"
  by (simp add: pipe_def inlet_def multimodal_body_def asc_def)

lemma pipe_api_get_url:
  "pipe_api_get (v\<lparr>passthrough_model := m\<rparr>) svc e = pipe_api_get v svc e"
  by (simp add: pipe_api_get_def)

lemma pipe_api_delete_url:
  "pipe_api_delete (v\<lparr>passthrough_model := m\<rparr>) svc e = pipe_api_delete v svc e"
  by (simp add: pipe_api_delete_def)

lemma pipe_handlers_url:
  "pipe_list_notes (v\<lparr>passthrough_model := m\<rparr>) svc = pipe_list_notes v svc"
  "pipe_read (v\<lparr>passthrough_model := m\<rparr>) svc slug = pipe_read v svc slug"
  "pipe_search (v\<lparr>passthrough_model := m\<rparr>) svc query = pipe_search v svc query"
  "pipe_categories (v\<lparr>passthrough_model := m\<rparr>) svc = pipe_categories v svc"
  "pipe_tags (v\<lparr>passthrough_model := m\<rparr>) svc = pipe_tags v svc"
  "pipe_delete (v\<lparr>passthrough_model := m\<rparr>) svc slug = pipe_delete v svc slug"
  by (simp_all add: pipe_list_notes_def pipe_read_def pipe_search_def
        pipe_categories_def pipe_tags_def pipe_delete_def pipe_fetch_notes_def
        pipe_fetch_note_def pipe_fetch_categories_def pipe_fetch_tags_def pipe_fetch_key_def
        pipe_api_get_url pipe_api_delete_url)

lemma pipe_text_url:
  "pipe_text (v\<lparr>passthrough_model := m\<rparr>) svc = pipe_text v svc"
  by (rule ext) (simp add: pipe_text_def Let_def pipe_handlers_url cong: command.case_cong)

lemma pipe_ignores_passthrough_model:
  "pipe (v\<lparr>passthrough_model := m1\<rparr>) svc body = pipe (v\<lparr>passthrough_model := m2\<rparr>) svc body"
  by (simp add: pipe_def Let_def pipe_text_url cong: pyval.case_cong)

lemma asc_keys_differ:
  "asc ''model'' \<noteq> asc ''messages''" "asc ''messages'' \<noteq> asc ''model''"
  "asc ''role'' \<noteq> asc ''content''" "asc ''content'' \<noteq> asc ''role''"
  "asc ''stream'' \<noteq> asc ''messages''" "asc ''messages'' \<noteq> asc ''stream''"
  by (simp_all add: asc_def)

lemma pipe_list_notes_null:
  "pipe_text v null_service (asc ''notes'') = Inl TypeError"
proof -
  have "strip (lower (strip (asc ''notes''))) = asc ''notes''"
    by (simp add: strip_def lower_def lower_char_def is_space_def asc_def)
  moreover have "pipe_classify (asc ''notes'') = ListNotes"
    by (simp add: pipe_classify_def asc_def)
  moreover have "pipe_list_notes v null_service = Inl TypeError"
    by (simp add: pipe_list_notes_def pipe_fetch_notes_def pipe_api_get_def try_get_def
          null_service_def raise_for_status_def)
  ultimately show ?thesis
    by (simp add: pipe_text_def Let_def)
qed

text \<open>
  C8. The claim says that \<open>pipe\<close> returns a complete string for every input body,
  the same for any two values of \<open>passthrough_model\<close>. The result is indeed the same
  for any two values (\<open>pipe_ignores_passthrough_model\<close>), but it is not always a
  string: whatever the value of \<open>passthrough_model\<close>, \<open>pipe\<close> raises AttributeError on
  a last message whose content is a list of parts, and TypeError on the message
  \<open>notes\<close> when the service answers with the JSON value null.
\<close>

theorem pipe_returns_no_string:
  "pipe (default_pipe_valves\<lparr>passthrough_model := m\<rparr>) unreachable_service multimodal_body
     = Inl AttributeError
   \<and> pipe (default_pipe_valves\<lparr>passthrough_model := m\<rparr>) null_service
         (sample_body (asc ''notes''))
     = Inl TypeError"
  by (simp add: pipe_def multimodal_body_def sample_body_def pipe_list_notes_null asc_keys_differ)

lemma rbind_eq_Inr: "rbind m f = Inr y \<longleftrightarrow> (\<exists>x. m = Inr x \<and> f x = Inr y)"
  by (cases m) auto

lemma auto_fetch_shape:
  "auto_fetch v svc set_order body msg = Inr body' \<Longrightarrow>
     body' = body \<or> (\<exists>text. set_last_content body text = Inr body')"
  by (auto simp: auto_fetch_def Let_def rbind_eq_Inr split: if_splits)

lemma inlet_list_notes_shape:
  "inlet_list_notes v svc em body = Inr (evs, body') \<Longrightarrow>
     \<exists>text. set_last_content body text = Inr body'"
  by (auto simp: inlet_list_notes_def rbind_eq_Inr)

lemma inlet_read_shape:
  "inlet_read v svc em body slug = Inr (evs, body') \<Longrightarrow>
     \<exists>text. set_last_content body text = Inr body'"
  by (auto simp: inlet_read_def Let_def rbind_eq_Inr split: if_splits)

lemma inlet_new_shape:
  "inlet_new v svc body = Inr (evs, body') \<Longrightarrow>
     \<exists>text. set_last_content body text = Inr body'"
  by (auto simp: inlet_new_def rbind_eq_Inr)

lemma inlet_search_shape:
  assumes "inlet_search v svc em body query = Inr (evs, body')"
  shows "\<exists>text. set_last_content body text = Inr body'"
proof -
  from assms obtain ns where
    1: "rbind (if truthy ns then
              rbind (render_notes_list_md ns) (\<lambda>md.
              rbind (py_len ns) (\<lambda>n.
                Inr (md, emit_status em ((asc ''Found '') @ show_nat n @ (asc '' notes'')) True)))
            else
              Inr (render_error_md (asc ''No results'')
                     ((asc ''No notes found matching '') @ [0x27] @ query @ [0x27] @ (asc ''.'')),
                   emit_status em (asc ''No results'') True)) (\<lambda>(md, done).
     rbind (set_last_content body (
              (asc ''[Search results for '') @ [0x27] @ query @ [0x27] @ (asc '':]'') @ nl @ nl @ md))
       (\<lambda>body'.
         Inr (emit_status em ((asc ''Searching for '') @ [0x27] @ query @ [0x27] @ (asc ''...'')) False
                @ done, body'))) = Inr (evs, body')"
    unfolding inlet_search_def by (subst (asm) rbind_eq_Inr) blast
  then obtain p where
    2: "(case p of (md, done) \<Rightarrow>
     rbind (set_last_content body (
              (asc ''[Search results for '') @ [0x27] @ query @ [0x27] @ (asc '':]'') @ nl @ nl @ md))
       (\<lambda>body'.
         Inr (emit_status em ((asc ''Searching for '') @ [0x27] @ query @ [0x27] @ (asc ''...'')) False
                @ done, body'))) = Inr (evs, body')"
    by (subst (asm) rbind_eq_Inr) blast
  obtain md dn where p: "p = (md, dn)" by (cases p)
  from 2 show ?thesis
    unfolding p prod.case by (subst (asm) rbind_eq_Inr) auto
qed

lemma inlet_text_shape:
  assumes "inlet_text v svc set_order em body text = Inr (evs, body')"
  shows "body' = body \<or> (\<exists>text'. set_last_content body text' = Inr body')"
proof -
  define c where "c = (if enable_slash_commands v then filter_classify (strip (lower (strip text)))
              else Unrecognized)"
  have r: "(case c of
           ListNotes \<Rightarrow> inlet_list_notes v svc em body
         | ReadNote slug \<Rightarrow> inlet_read v svc em body slug
         | CreateNote \<Rightarrow> inlet_new v svc body
         | SearchNotes query \<Rightarrow> inlet_search v svc em body query
         | _ \<Rightarrow> rbind (auto_fetch v svc set_order body (strip text)) (\<lambda>body'. Inr ([], body')))
        = Inr (evs, body')"
    using assms unfolding inlet_text_def Let_def c_def .
  show ?thesis
  proof (cases c)
    case ListNotes
    with r show ?thesis using inlet_list_notes_shape [of v svc em body evs body'] by simp
  next
    case (ReadNote slug)
    with r show ?thesis using inlet_read_shape [of v svc em body slug evs body'] by simp
  next
    case CreateNote
    with r show ?thesis using inlet_new_shape [of v svc body evs body'] by simp
  next
    case (SearchNotes query)
    with r show ?thesis using inlet_search_shape [of v svc em body query evs body'] by simp
  next
    case ListCategories
    with r show ?thesis using auto_fetch_shape [of v svc set_order body "strip text" body']
      by (auto simp: rbind_eq_Inr)
  next
    case ListTags
    with r show ?thesis using auto_fetch_shape [of v svc set_order body "strip text" body']
      by (auto simp: rbind_eq_Inr)
  next
    case (DeleteNote slug)
    with r show ?thesis using auto_fetch_shape [of v svc set_order body "strip text" body']
      by (auto simp: rbind_eq_Inr)
  next
    case Help
    with r show ?thesis using auto_fetch_shape [of v svc set_order body "strip text" body']
      by (auto simp: rbind_eq_Inr)
  next
    case Unrecognized
    with r show ?thesis using auto_fetch_shape [of v svc set_order body "strip text" body']
      by (auto simp: rbind_eq_Inr)
  qed
qed

lemma inlet_shape:
  assumes "inlet v svc set_order em body = Inr (evs, body')"
  shows "body' = body \<or> (\<exists>text'. set_last_content body text' = Inr body')"
proof (cases "truthy (case map_of body (asc ''messages'') of Some m \<Rightarrow> m | None \<Rightarrow> PList [])")
  case False
  with assms show ?thesis by (simp add: inlet_def Let_def)
next
  case True
  with assms obtain c where
    c: "(case c of PStr text \<Rightarrow> inlet_text v svc set_order em body text | _ \<Rightarrow> Inr ([], body))
          = Inr (evs, body')"
    by (auto simp: inlet_def Let_def rbind_eq_Inr)
  then show ?thesis
    using inlet_text_shape by (cases c) auto
qed

lemma set_last_content_shape:
  assumes "set_last_content body text = Inr body'"
  shows "\<exists>ms d. map_of body (asc ''messages'') = Some (PList ms) \<and> ms \<noteq> [] \<and> last ms = PDict d
           \<and> body' = AList.update (asc ''messages'')
                 (PList (butlast ms @ [PDict (AList.update (asc ''content'') (PStr text) d)])) body"
  using assms
  by (auto simp: set_last_content_def split: option.splits pyval.splits if_splits)

lemma update_frame:
  assumes "map_of body (asc ''messages'') = Some (PList ms)" "ms \<noteq> []" "last ms = PDict d"
    and "body' = AList.update (asc ''messages'')
                 (PList (butlast ms @ [PDict (AList.update (asc ''content'') (PStr text) d)])) body"
  shows "map fst body' = map fst body"
    and "\<forall>k. k \<noteq> (asc ''messages'') \<longrightarrow> map_of body' k = map_of body k"
    and "\<forall>ms0 ms'. map_of body (asc ''messages'') = Some (PList ms0) \<longrightarrow>
            map_of body' (asc ''messages'') = Some (PList ms') \<longrightarrow>
            length ms' = length ms0 \<and> butlast ms' = butlast ms0 \<and>
            (\<forall>d0 d'. last ms0 = PDict d0 \<longrightarrow> last ms' = PDict d' \<longrightarrow>
               (\<forall>k. k \<noteq> (asc ''content'') \<longrightarrow> map_of d' k = map_of d0 k))"
proof -
  from assms(1) have "(asc ''messages'') \<in> set (map fst body)"
    by (metis map_of_eq_None_iff option.distinct(1) set_map)
  then show "map fst body' = map fst body"
    by (simp add: assms(4) AList.update_keys)
  show "\<forall>k. k \<noteq> (asc ''messages'') \<longrightarrow> map_of body' k = map_of body k"
    by (simp add: assms(4) AList.update_conv')
  show "\<forall>ms0 ms'. map_of body (asc ''messages'') = Some (PList ms0) \<longrightarrow>
            map_of body' (asc ''messages'') = Some (PList ms') \<longrightarrow>
            length ms' = length ms0 \<and> butlast ms' = butlast ms0 \<and>
            (\<forall>d0 d'. last ms0 = PDict d0 \<longrightarrow> last ms' = PDict d' \<longrightarrow>
               (\<forall>k. k \<noteq> (asc ''content'') \<longrightarrow> map_of d' k = map_of d0 k))"
    using assms(1,2,3) by (auto simp: assms(4) AList.update_conv')
qed

text \<open>
  C10. When \<open>inlet\<close> returns, the body is either the one it was given, or that body
  with the \<open>content\<close> entry of the last message replaced by a string. In both cases
  the keys of the body and their order are the same, every entry other than \<open>messages\<close>
  is the same, the message list has the same length and the same messages before the last,
  and every entry of the last message other than \<open>content\<close> is the same. \<open>pipe\<close>
  computes a string from the body and has no body to return.
\<close>

theorem inlet_frame:
  assumes "inlet v svc set_order em body = Inr (evs, body')"
  shows "(body' = body \<or>
          (\<exists>ms d text. map_of body (asc ''messages'') = Some (PList ms) \<and> ms \<noteq> [] \<and> last ms = PDict d
             \<and> body' = AList.update (asc ''messages'')
                   (PList (butlast ms @ [PDict (AList.update (asc ''content'') (PStr text) d)])) body))
       \<and> map fst body' = map fst body
       \<and> (\<forall>k. k \<noteq> (asc ''messages'') \<longrightarrow> map_of body' k = map_of body k)
       \<and> (\<forall>ms ms'. map_of body (asc ''messages'') = Some (PList ms) \<longrightarrow>
            map_of body' (asc ''messages'') = Some (PList ms') \<longrightarrow>
            length ms' = length ms \<and> butlast ms' = butlast ms \<and>
            (\<forall>d d'. last ms = PDict d \<longrightarrow> last ms' = PDict d' \<longrightarrow>
               (\<forall>k. k \<noteq> (asc ''content'') \<longrightarrow> map_of d' k = map_of d k)))"
proof (cases "body' = body")
  case True
  then show ?thesis by simp
next
  case False
  with inlet_shape [OF assms] obtain t where "set_last_content body t = Inr body'"
    by blast
  from set_last_content_shape [OF this] obtain ms d where
    s: "map_of body (asc ''messages'') = Some (PList ms)" "ms \<noteq> []" "last ms = PDict d"
       "body' = AList.update (asc ''messages'')
                 (PList (butlast ms @ [PDict (AList.update (asc ''content'') (PStr t) d)])) body"
    by blast
  from update_frame [OF s] s show ?thesis by blast
qed

lemma read_note5_normal:
  "strip (lower (strip (asc ''read note-5''))) = asc ''read note-5''"
  by (simp add: strip_def lower_def lower_char_def is_space_def asc_def)

lemma read_note5_classified:
  "filter_classify (asc ''read note-5'') = ReadNote (asc ''note-5'')"
  by (simp add: filter_classify_def re_match_def filter_read_pattern_def slug_pattern_def
        lits_def ci_eq_def ascii_lower_def is_space_def is_digit_def digit_ranges_def asc_def)

lemma inlet_read_sample:
  "inlet default_filter_valves unreachable_service remdups False (sample_body (asc ''read note-5''))
     = Inr ([], sample_body (asc ''[Error: note not found]'' @ nl @ nl @
                 render_error_md (asc ''Note not found'') (asc ''Could not find `note-5`.'')))"
proof -
  have t: "inlet_text default_filter_valves unreachable_service remdups False b
             (asc ''read note-5'')
           = inlet_read default_filter_valves unreachable_service False b (asc ''note-5'')" for b
    by (simp add: inlet_text_def Let_def read_note5_normal read_note5_classified
          default_filter_valves_def)
  show ?thesis
    by (simp add: inlet_def sample_body_def t asc_keys_differ inlet_read_def filter_fetch_note_def
          filter_api_get_def try_get_def unreachable_service_def set_last_content_def
          emit_status_def Let_def; simp add: asc_def)
qed

theorem inlet_frame_witness:
  "inlet default_filter_valves unreachable_service remdups False (sample_body (asc ''read note-5''))
     = Inr ([], sample_body (asc ''[Error: note not found]'' @ nl @ nl @
                 render_error_md (asc ''Note not found'') (asc ''Could not find `note-5`.'')))
   \<and> map fst (sample_body (asc ''[Error: note not found]'' @ nl @ nl @
                 render_error_md (asc ''Note not found'') (asc ''Could not find `note-5`.'')))
       = map fst (sample_body (asc ''read note-5''))
   \<and> map_of (sample_body (asc ''[Error: note not found]'' @ nl @ nl @
                 render_error_md (asc ''Note not found'') (asc ''Could not find `note-5`.''))) (asc ''stream'')
       = map_of (sample_body (asc ''read note-5'')) (asc ''stream'')"
  using inlet_frame [OF inlet_read_sample] inlet_read_sample by (simp add: asc_keys_differ)

section \<open>The scan for mentions\<close>

lemma rec_cap_Nil [simp]: "rec_cap g [] = g"
  by (cases g) simp_all

lemma rec_cap_rec_cap [simp]: "rec_cap (rec_cap g a) b = rec_cap g (a @ b)"
  by (cases g) simp_all

lemma starts_with_length: "starts_with ic w s \<Longrightarrow> length w \<le> length s"
  by (induction ic w s rule: starts_with.induct) simp_all


lemma rmatch_plus_stop:
  "s = [] \<or> \<not> cmatch ic c (hd s) \<Longrightarrow> rmatch ic (Atom c Plus # r) b g s = None"
  by (cases s) auto

lemma rmatch_plus_det:
  assumes rej: "\<And>b g x s. cmatch ic c x \<Longrightarrow> rmatch ic r b g (x # s) = None"
    and "s \<noteq> []" "cmatch ic c (hd s)"
  shows "rmatch ic (Atom c Plus # r) b g s =
           rmatch ic r False (rec_cap g (takeWhile (cmatch ic c) s)) (dropWhile (cmatch ic c) s)"
  using assms(2,3)
proof (induction s arbitrary: b g)
  case Nil
  then show ?case by simp
next
  case (Cons x s)
  show ?case
  proof (cases "s \<noteq> [] \<and> cmatch ic c (hd s)")
    case True
    then obtain y s' where s: "s = y # s'" "cmatch ic c y" by (cases s) auto
    from Cons.IH [of False "rec_cap g [x]"] True
    have ih: "rmatch ic (Atom c Plus # r) False (rec_cap g [x]) s =
                rmatch ic r False (rec_cap g (x # takeWhile (cmatch ic c) s)) (dropWhile (cmatch ic c) s)"
      by simp
    have "rmatch ic r False (rec_cap g [x]) s = None"
      using rej [OF s(2)] s(1) by simp
    with Cons.prems ih show ?thesis
      by (simp split: option.splits)
  next
    case False
    then have "rmatch ic (Atom c Plus # r) False (rec_cap g [x]) s = None"
      by (intro rmatch_plus_stop) auto
    moreover from False have "takeWhile (cmatch ic c) s = []" "dropWhile (cmatch ic c) s = s"
      by (cases s; simp)+
    ultimately show ?thesis using Cons.prems by simp
  qed
qed








lemma slug_at_split: "s = slug_at s @ dropWhile is_digit (drop 5 s)"
  by (simp add: slug_at_def)



lemma slug_at_drop: "drop (length (slug_at s)) s = dropWhile is_digit (drop 5 s)"
  by (metis append_eq_conv_conj slug_at_split)












section \<open>Messages that match no command\<close>










end
